theory Spec2Isabelle
  imports Main "HOL-Library.Word" "HOL-Library.Sublist"
begin

unbundle bit_operations_syntax

section \<open>JavaScript strings\<close>

text \<open>
  A JavaScript string is a sequence of UTF-16 code units; a code unit is modelled as a
  natural number. \<open>js\<close> turns an ASCII literal of the source into such a sequence.
\<close>

type_synonym jstring = "nat list"

definition js :: "string \<Rightarrow> jstring" where
  "js s = map of_char s"

text \<open>
  The character class \<^verbatim>\<open>\s\<close> of a JavaScript regular expression (without the
  \<^verbatim>\<open>u\<close> flag), which is also the set that \<^verbatim>\<open>String.prototype.trim\<close>
  strips: TAB, LF, VT, FF, CR, SPACE, NBSP, U+1680, U+2000..U+200A, U+2028, U+2029,
  U+202F, U+205F, U+3000 and U+FEFF.
\<close>

definition is_space :: "nat \<Rightarrow> bool" where
  "is_space c =
     (c \<in> {9, 10, 11, 12, 13, 32, 160, 5760, 8232, 8233, 8239, 8287, 12288, 65279}
      \<or> (8192 \<le> c \<and> c \<le> 8202))"

definition trim :: "jstring \<Rightarrow> jstring" where
  "trim s = rev (dropWhile is_space (rev (dropWhile is_space s)))"

text \<open>
  \<^verbatim>\<open>`${Date.now()}`\<close>: the decimal digits of a non-negative integer.
\<close>

fun decimal :: "nat \<Rightarrow> jstring" where
  "decimal n = (if n < 10 then [48 + n] else decimal (n div 10) @ [48 + n mod 10])"

declare decimal.simps [simp del]

text \<open>
  \<^verbatim>\<open>`${v}`\<close> for a property that may be absent: \<^verbatim>\<open>undefined\<close> is
  interpolated as the text \<^verbatim>\<open>undefined\<close>.
\<close>

definition interpolate :: "jstring option \<Rightarrow> jstring" where
  "interpolate v = (case v of None \<Rightarrow> js ''undefined'' | Some t \<Rightarrow> t)"

section \<open>The regular expressions of the manual path\<close>

text \<open>
  \<^verbatim>\<open>data.match(/KW\s*=\s*([^\s]+)/)\<close> looks for the leftmost position where the
  pattern matches and returns the captured group. At a fixed position the match is
  deterministic: the keyword, the longest run of white space (the next pattern
  character \<^verbatim>\<open>=\<close> is not white space, so giving white space back never helps),
  the character \<^verbatim>\<open>=\<close>, again the longest run of white space, then the longest
  non-empty run of characters that are not white space. \<open>None\<close> stands for the
  \<^verbatim>\<open>null\<close> that \<^verbatim>\<open>match\<close> returns when there is no match.
\<close>

fun strip_prefix :: "jstring \<Rightarrow> jstring \<Rightarrow> jstring option" where
  "strip_prefix [] s = Some s"
| "strip_prefix (k # ks) [] = None"
| "strip_prefix (k # ks) (c # s) = (if k = c then strip_prefix ks s else None)"

definition match_here :: "jstring \<Rightarrow> jstring \<Rightarrow> jstring option" where
  "match_here kw s =
     (case strip_prefix kw s of
        None \<Rightarrow> None
      | Some r \<Rightarrow>
          (case dropWhile is_space r of
             [] \<Rightarrow> None
           | c # r' \<Rightarrow>
               if c = 61 then
                 (case takeWhile (\<lambda>x. \<not> is_space x) (dropWhile is_space r') of
                    [] \<Rightarrow> None
                  | v # vs \<Rightarrow> Some (v # vs))
               else None))"

fun match_field :: "jstring \<Rightarrow> jstring \<Rightarrow> jstring option" where
  "match_field kw [] = match_here kw []"
| "match_field kw (c # s) =
     (case match_here kw (c # s) of Some v \<Rightarrow> Some v | None \<Rightarrow> match_field kw s)"

record parsed_config =
  pc_privateKey :: jstring
  pc_address :: jstring
  pc_publicKey :: jstring
  pc_presharedKey :: jstring
  pc_endpoint :: jstring

text \<open>
  The five extractions of \<^verbatim>\<open>connectToWireGuard\<close>, in the order of the source;
  \<^verbatim>\<open>match(...)[1]\<close> throws a \<^verbatim>\<open>TypeError\<close> when \<^verbatim>\<open>match\<close> returns
  \<^verbatim>\<open>null\<close>, which is the result \<open>None\<close> here.
\<close>

definition parseConfig :: "jstring \<Rightarrow> parsed_config option" where
  "parseConfig data =
     (case match_field (js ''PrivateKey'') data of None \<Rightarrow> None | Some privateKey \<Rightarrow>
     (case match_field (js ''Address'') data of None \<Rightarrow> None | Some address \<Rightarrow>
     (case match_field (js ''PublicKey'') data of None \<Rightarrow> None | Some publicKey \<Rightarrow>
     (case match_field (js ''PresharedKey'') data of None \<Rightarrow> None | Some presharedKey \<Rightarrow>
     (case match_field (js ''Endpoint'') data of None \<Rightarrow> None | Some endpoint \<Rightarrow>
        Some \<lparr>pc_privateKey = privateKey, pc_address = address, pc_publicKey = publicKey,
              pc_presharedKey = presharedKey, pc_endpoint = endpoint\<rparr>)))))"

section \<open>Configuration synthesis\<close>

text \<open>The template literal of \<^verbatim>\<open>createWireGuardConfig\<close>.\<close>

definition configContent ::
  "jstring \<Rightarrow> jstring \<Rightarrow> jstring \<Rightarrow> jstring \<Rightarrow> jstring \<Rightarrow> jstring" where
  "configContent privateKey address serverPublicKey presharedKey endpoint =
     js ''[Interface]\<newline>PrivateKey = '' @ privateKey @
     js ''\<newline>Address = '' @ address @
     js ''\<newline>DNS = 1.1.1.1, 8.8.8.8\<newline>PostUp = echo 'nameserver 1.1.1.1' | resolvconf -a %i -m 0 || true\<newline>PostDown = resolvconf -d %i || true\<newline>\<newline>[Peer]\<newline>PublicKey = '' @ serverPublicKey @
     js ''\<newline>PresharedKey = '' @ presharedKey @
     js ''\<newline>AllowedIPs = 0.0.0.0/0, ::/0\<newline>Endpoint = '' @ endpoint @
     js '':51820\<newline>PersistentKeepalive = 25\<newline>''"

text \<open>What the round trip needs of an interpolated value.\<close>

definition ws_free :: "jstring \<Rightarrow> bool" where
  "ws_free v = list_all (\<lambda>c. \<not> is_space c) v"

definition field_value :: "jstring \<Rightarrow> bool" where
  "field_value v = (v \<noteq> [] \<and> ws_free v)"

fun occurs :: "jstring \<Rightarrow> jstring \<Rightarrow> bool" where
  "occurs p [] = (p = [])"
| "occurs p (c # s) = (strip_prefix p (c # s) \<noteq> None \<or> occurs p s)"

text \<open>
  \<open>assigns kw v\<close>: the value \<open>v\<close> contains the field name \<open>kw\<close> directly followed
  by \<^verbatim>\<open>=\<close>; \<open>shadows kws v\<close>: it does so for one of the names \<open>kws\<close>.
\<close>

definition assigns :: "jstring \<Rightarrow> jstring \<Rightarrow> bool" where
  "assigns kw v = occurs (kw @ [61]) v"

definition shadows :: "jstring list \<Rightarrow> jstring \<Rightarrow> bool" where
  "shadows kws v = list_ex (\<lambda>kw. assigns kw v) kws"

section \<open>The host\<close>

text \<open>
  Everything the SDK does to the machine goes through \<^verbatim>\<open>child_process.exec\<close>,
  \<^verbatim>\<open>fs\<close>, \<^verbatim>\<open>Date.now\<close> and \<^verbatim>\<open>fetch\<close>. The host is a record of
  transition functions on a world \<open>'w\<close> about which nothing is assumed, so a theorem
  for every host and every world covers every outcome of every call. A callback is
  taken to be called once the operation has ended.
\<close>

datatype js_error = Error jstring | TypeError

text \<open>
  How a promise ends for the caller. \<open>Uncaught\<close>: an exception thrown inside a
  callback of \<^verbatim>\<open>exec\<close> or \<^verbatim>\<open>fs\<close>, outside every \<^verbatim>\<open>try\<close> and every
  promise executor; the promise is never settled.
\<close>

datatype 'a outcome = Resolved 'a | Rejected js_error | Uncaught js_error

type_synonym mode = "16 word"

text \<open>The arguments of the \<^verbatim>\<open>exec\<close> callback: error, stdout, stderr.\<close>

type_synonym exec_result = "js_error option \<times> jstring \<times> jstring"

record node =
  node_id :: jstring
  node_status :: jstring

text \<open>
  What \<^verbatim>\<open>fetch\<close> followed by \<^verbatim>\<open>response.json()\<close> gives: the request fails,
  the body is not JSON, or a value.
\<close>

datatype 'a fetched = FetchError js_error | JsonError js_error | Json 'a

text \<open>
  The node directory's answer, as far as \<^verbatim>\<open>getAllNodes\<close> looks at it:
  \<^verbatim>\<open>data.payload\<close> is an array (\<open>Some\<close>) or anything else, \<^verbatim>\<open>data\<close> being
  \<^verbatim>\<open>null\<close> included (\<open>None\<close>); an entry of the array is an object with \<^verbatim>\<open>id\<close>
  and \<^verbatim>\<open>status\<close> (\<open>Some\<close>) or \<^verbatim>\<open>null\<close> (\<open>None\<close>).
\<close>

type_synonym node_directory = "node option list option"

record client_info =
  ci_Address :: "jstring list option"
  ci_PresharedKey :: "jstring option"

record provisioning_payload =
  pp_client :: "client_info option"
  pp_endpoint :: "jstring option"
  pp_serverPublicKey :: "jstring option"

text \<open>The body of the provisioning request.\<close>

record client_request =
  cr_name :: jstring
  cr_publicKey :: jstring
  cr_presharedKey :: jstring

text \<open>
  The provisioning call: \<^verbatim>\<open>fetch\<close> rejects, \<^verbatim>\<open>response.text()\<close> rejects, or
  the raw text of the body.
\<close>

datatype client_reply = NoResponse js_error | NoText js_error | RawText jstring

record key_pair =
  kp_privateKey :: jstring
  kp_publicKey :: jstring

text \<open>
  The value that \<^verbatim>\<open>JSON.parse\<close> makes of the provisioning reply, as far as the
  SDK looks at it. \<open>pr_payload = None\<close>: it has no \<^verbatim>\<open>payload\<close>.
  \<open>pr_printable\<close>: converting it to a string, as \<^verbatim>\<open>log(client)\<close> does in a
  template literal, does not throw. It throws a \<^verbatim>\<open>TypeError\<close> when the value has
  an own property \<^verbatim>\<open>toString\<close>, which in a parsed value is never a function.
\<close>

record parsed_reply =
  pr_payload :: "provisioning_payload option"
  pr_printable :: bool

text \<open>
  The object \<^verbatim>\<open>createClient\<close> returns: the parsed reply with \<^verbatim>\<open>privateKey\<close>
  and \<^verbatim>\<open>presharedKey\<close> stored in it.
\<close>

record client_data =
  cd_payload :: "provisioning_payload option"
  cd_privateKey :: jstring
  cd_presharedKey :: jstring
  cd_printable :: bool

record 'w host =
  h_exec :: "jstring \<Rightarrow> 'w \<Rightarrow> exec_result \<times> 'w"
  h_readFile :: "jstring \<Rightarrow> 'w \<Rightarrow> (js_error + jstring) \<times> 'w"
  h_writeFile :: "jstring \<Rightarrow> jstring \<Rightarrow> mode \<Rightarrow> 'w \<Rightarrow> js_error option \<times> 'w"
  h_unlink :: "jstring \<Rightarrow> 'w \<Rightarrow> js_error option \<times> 'w"
  h_mkdir :: "jstring \<Rightarrow> 'w \<Rightarrow> js_error option \<times> 'w"
  h_rm :: "jstring \<Rightarrow> 'w \<Rightarrow> js_error option \<times> 'w"
  h_now :: "'w \<Rightarrow> nat \<times> 'w"
  h_fetch_nodes :: "jstring \<Rightarrow> 'w \<Rightarrow> node_directory fetched \<times> 'w"
  h_fetch_client :: "jstring \<Rightarrow> jstring \<Rightarrow> client_request \<Rightarrow> 'w \<Rightarrow> client_reply \<times> 'w"
  h_JSON_parse :: "jstring \<Rightarrow> parsed_reply option"

text \<open>
  \<open>h_JSON_parse\<close> is \<^verbatim>\<open>JSON.parse\<close> on the provisioning reply, as far as the SDK
  looks at the result: \<open>None\<close> when it throws, when it gives \<^verbatim>\<open>null\<close> (storing
  the private key in \<^verbatim>\<open>null\<close> throws inside the inner \<^verbatim>\<open>try\<close>, and
  \<^verbatim>\<open>data\<close> stays \<^verbatim>\<open>null\<close>) or when it gives another falsy value, which
  \<^verbatim>\<open>connectDvpn\<close> does not tell from \<^verbatim>\<open>null\<close>; \<open>Some r\<close> for any other
  value.

  The calls made are recorded, in order, in a trace. An \<open>Exec\<close> event keeps the error
  the callback received.
\<close>

datatype event =
    Exec jstring "js_error option"
  | ReadFile jstring
  | WriteFile jstring jstring mode
  | Unlink jstring
  | Mkdir jstring
  | Rm jstring
  | Timeout nat
  | HttpGet jstring
  | HttpPost jstring client_request

record 'w run =
  world :: 'w
  trace :: "event list"

definition start :: "'w \<Rightarrow> 'w run" where
  "start w = \<lparr>world = w, trace = []\<rparr>"

definition exec :: "'w host \<Rightarrow> jstring \<Rightarrow> 'w run \<Rightarrow> exec_result \<times> 'w run" where
  "exec h command s =
     (case h_exec h command (world s) of
        (r, w) \<Rightarrow> (r, \<lparr>world = w, trace = trace s @ [Exec command (fst r)]\<rparr>))"

definition readFile :: "'w host \<Rightarrow> jstring \<Rightarrow> 'w run \<Rightarrow> (js_error + jstring) \<times> 'w run" where
  "readFile h path s =
     (case h_readFile h path (world s) of
        (r, w) \<Rightarrow> (r, \<lparr>world = w, trace = trace s @ [ReadFile path]\<rparr>))"

definition writeFile ::
  "'w host \<Rightarrow> jstring \<Rightarrow> jstring \<Rightarrow> mode \<Rightarrow> 'w run \<Rightarrow> js_error option \<times> 'w run" where
  "writeFile h path content m s =
     (case h_writeFile h path content m (world s) of
        (r, w) \<Rightarrow> (r, \<lparr>world = w, trace = trace s @ [WriteFile path content m]\<rparr>))"

definition unlink :: "'w host \<Rightarrow> jstring \<Rightarrow> 'w run \<Rightarrow> js_error option \<times> 'w run" where
  "unlink h path s =
     (case h_unlink h path (world s) of
        (r, w) \<Rightarrow> (r, \<lparr>world = w, trace = trace s @ [Unlink path]\<rparr>))"

definition mkdir :: "'w host \<Rightarrow> jstring \<Rightarrow> 'w run \<Rightarrow> js_error option \<times> 'w run" where
  "mkdir h path s =
     (case h_mkdir h path (world s) of
        (r, w) \<Rightarrow> (r, \<lparr>world = w, trace = trace s @ [Mkdir path]\<rparr>))"

definition rm :: "'w host \<Rightarrow> jstring \<Rightarrow> 'w run \<Rightarrow> js_error option \<times> 'w run" where
  "rm h path s =
     (case h_rm h path (world s) of
        (r, w) \<Rightarrow> (r, \<lparr>world = w, trace = trace s @ [Rm path]\<rparr>))"

definition now :: "'w host \<Rightarrow> 'w run \<Rightarrow> nat \<times> 'w run" where
  "now h s = (case h_now h (world s) of (t, w) \<Rightarrow> (t, s\<lparr>world := w\<rparr>))"

definition setTimeout :: "nat \<Rightarrow> 'w run \<Rightarrow> 'w run" where
  "setTimeout ms s = s\<lparr>trace := trace s @ [Timeout ms]\<rparr>"

section \<open>Key material\<close>

text \<open>
  \<^verbatim>\<open>checkWireGuard\<close>: \<^verbatim>\<open>which wg\<close> must succeed and print something.
\<close>

definition checkWireGuard :: "'w host \<Rightarrow> 'w run \<Rightarrow> bool \<times> 'w run" where
  "checkWireGuard h s =
     (case exec h (js ''which wg'') s of
        ((error, stdout, stderr), s1) \<Rightarrow>
          if error \<noteq> None \<or> trim stdout = [] then (False, s1) else (True, s1))"

text \<open>
  \<^verbatim>\<open>generateWireGuardKeyPair\<close>. Every \<^verbatim>\<open>await\<close> is inside one \<^verbatim>\<open>try\<close>
  whose \<^verbatim>\<open>catch\<close> logs and returns \<^verbatim>\<open>null\<close> (\<open>None\<close>).
\<close>

definition generateWireGuardKeyPair :: "'w host \<Rightarrow> 'w run \<Rightarrow> key_pair option \<times> 'w run" where
  "generateWireGuardKeyPair h s =
     (case now h s of (t, s0) \<Rightarrow>
      let tempDir = js ''/tmp/wg-keys-'' @ decimal t in
      (case mkdir h tempDir s0 of
         (Some e, s1) \<Rightarrow> (None, s1)
       | (None, s1) \<Rightarrow>
      (case exec h (js ''wg genkey > '' @ tempDir @ js ''/private.key'') s1 of
         ((Some e, out, err), s2) \<Rightarrow> (None, s2)
       | ((None, out, err), s2) \<Rightarrow>
      (case exec h (js ''cat '' @ tempDir @ js ''/private.key | wg pubkey > '' @ tempDir
                      @ js ''/public.key'') s2 of
         ((Some e, out, err), s3) \<Rightarrow> (None, s3)
       | ((None, out, err), s3) \<Rightarrow>
      (case readFile h (tempDir @ js ''/private.key'') s3 of
         (Inl e, s4) \<Rightarrow> (None, s4)
       | (Inr privateText, s4) \<Rightarrow>
      (case readFile h (tempDir @ js ''/public.key'') s4 of
         (Inl e, s5) \<Rightarrow> (None, s5)
       | (Inr publicText, s5) \<Rightarrow>
      (case rm h tempDir s5 of
         (Some e, s6) \<Rightarrow> (None, s6)
       | (None, s6) \<Rightarrow>
           (Some \<lparr>kp_privateKey = trim privateText, kp_publicKey = trim publicText\<rparr>,
            s6))))))))"

definition generatePresharedKey :: "'w host \<Rightarrow> 'w run \<Rightarrow> jstring option \<times> 'w run" where
  "generatePresharedKey h s =
     (case now h s of (t, s0) \<Rightarrow>
      let tempFile = js ''/tmp/wg-psk-'' @ decimal t in
      (case exec h (js ''wg genpsk > '' @ tempFile) s0 of
         ((Some e, out, err), s1) \<Rightarrow> (None, s1)
       | ((None, out, err), s1) \<Rightarrow>
      (case readFile h tempFile s1 of
         (Inl e, s2) \<Rightarrow> (None, s2)
       | (Inr text, s2) \<Rightarrow>
      (case unlink h tempFile s2 of
         (Some e, s3) \<Rightarrow> (None, s3)
       | (None, s3) \<Rightarrow> (Some (trim text), s3)))))"

section \<open>Node directory and provisioning\<close>

text \<open>
  \<^verbatim>\<open>getAllNodes\<close>. Reading \<^verbatim>\<open>data.payload.length\<close> or calling
  \<^verbatim>\<open>filter\<close> on something that is not an array throws, and so does reading
  \<^verbatim>\<open>status\<close> of a \<^verbatim>\<open>null\<close> entry; the \<^verbatim>\<open>catch\<close> returns the empty
  array for all of them.
\<close>

definition nodes_url :: jstring where
  "nodes_url = js ''https://gateway.erebrus.io/api/v1.0/nodes/all''"

definition getAllNodes :: "'w host \<Rightarrow> jstring \<Rightarrow> 'w run \<Rightarrow> node list \<times> 'w run" where
  "getAllNodes h token s =
     (case h_fetch_nodes h token (world s) of (r, w) \<Rightarrow>
      let s1 = \<lparr>world = w, trace = trace s @ [HttpGet nodes_url]\<rparr> in
      (case r of
         FetchError e \<Rightarrow> ([], s1)
       | JsonError e \<Rightarrow> ([], s1)
       | Json None \<Rightarrow> ([], s1)
       | Json (Some payload) \<Rightarrow>
           if None \<in> set payload then ([], s1)
           else (filter (\<lambda>node. node_status node = js ''active'') (map the payload), s1)))"

text \<open>
  \<^verbatim>\<open>createClient\<close>. \<^verbatim>\<open>!presharedKey\<close> holds for \<^verbatim>\<open>null\<close> and for the
  empty string; \<^verbatim>\<open>!keyPair\<close> holds for \<^verbatim>\<open>null\<close> only, an object being
  truthy whatever its fields.
\<close>

definition client_url :: "jstring \<Rightarrow> jstring" where
  "client_url nodeId = js ''https://gateway.netsepio.com/api/v1.0/erebrus/client/'' @ nodeId"

definition createClient ::
  "'w host \<Rightarrow> jstring \<Rightarrow> jstring \<Rightarrow> jstring \<Rightarrow> 'w run \<Rightarrow> client_data option \<times> 'w run" where
  "createClient h token nodeId clientName s =
     (case generateWireGuardKeyPair h s of
        (None, s1) \<Rightarrow> (None, s1)
      | (Some keyPair, s1) \<Rightarrow>
     (case generatePresharedKey h s1 of
        (None, s2) \<Rightarrow> (None, s2)
      | (Some presharedKey, s2) \<Rightarrow>
          if presharedKey = [] then (None, s2)
          else
            let clientData = \<lparr>cr_name = clientName, cr_publicKey = kp_publicKey keyPair,
                               cr_presharedKey = presharedKey\<rparr> in
            (case h_fetch_client h token nodeId clientData (world s2) of (r, w) \<Rightarrow>
             let s3 = \<lparr>world = w, trace = trace s2 @ [HttpPost (client_url nodeId) clientData]\<rparr> in
             (case r of
                NoResponse e \<Rightarrow> (None, s3)
              | NoText e \<Rightarrow> (None, s3)
              | RawText rawText \<Rightarrow>
                  if rawText \<noteq> [] \<and> trim rawText \<noteq> [] then
                    (case h_JSON_parse h rawText of
                       None \<Rightarrow> (None, s3)
                     | Some data \<Rightarrow>
                         (Some \<lparr>cd_payload = pr_payload data,
                                 cd_privateKey = kp_privateKey keyPair,
                                 cd_presharedKey = presharedKey,
                                 cd_printable = pr_printable data\<rparr>, s3))
                  else (None, s3)))))"

text \<open>
  \<^verbatim>\<open>createWireGuardConfig\<close>. Destructuring an absent \<^verbatim>\<open>payload\<close>, reading
  \<^verbatim>\<open>Address\<close> of an absent \<^verbatim>\<open>client\<close> and indexing an absent
  \<^verbatim>\<open>Address\<close> throw; index 0 of an empty array is \<^verbatim>\<open>undefined\<close>.
\<close>

definition configPath_default :: jstring where
  "configPath_default = js ''/tmp/erebrus-dvpn.conf''"

definition first_address :: "jstring list \<Rightarrow> jstring option" where
  "first_address as = (case as of [] \<Rightarrow> None | a # _ \<Rightarrow> Some a)"

definition createWireGuardConfig ::
  "'w host \<Rightarrow> client_data \<Rightarrow> 'w run \<Rightarrow> jstring option \<times> 'w run" where
  "createWireGuardConfig h clientData s =
     (case cd_payload clientData of
        None \<Rightarrow> (None, s)
      | Some p \<Rightarrow>
     (case pp_client p of
        None \<Rightarrow> (None, s)
      | Some client \<Rightarrow>
     (case ci_Address client of
        None \<Rightarrow> (None, s)
      | Some addresses \<Rightarrow>
          let content =
                configContent (cd_privateKey clientData)
                  (interpolate (first_address addresses))
                  (interpolate (pp_serverPublicKey p))
                  (interpolate (ci_PresharedKey client))
                  (interpolate (pp_endpoint p)) in
          (case writeFile h configPath_default content 384 s of
             (Some e, s1) \<Rightarrow> (None, s1)
           | (None, s1) \<Rightarrow> (Some configPath_default, s1)))))"

section \<open>Interface bring-up and teardown\<close>

definition link_delete :: jstring where
  "link_delete = js ''sudo ip link delete dev erebrus-dvpn''"

definition quick_down :: jstring where
  "quick_down = js ''sudo wg-quick down erebrus-dvpn''"

definition cleanupWireGuard :: "'w host \<Rightarrow> 'w run \<Rightarrow> unit \<times> 'w run" where
  "cleanupWireGuard h s =
     (case exec h quick_down s of (r1, s1) \<Rightarrow>
      (case exec h link_delete s1 of (r2, s2) \<Rightarrow> ((), s2)))"


text \<open>
  The manual sequence. \<open>execCommands h tempConf cs\<close> is \<^verbatim>\<open>execCommands(index)\<close>
  with \<open>cs\<close> the commands from \<^verbatim>\<open>index\<close> on.
\<close>

definition wg_quick_up :: "jstring \<Rightarrow> jstring" where
  "wg_quick_up configPath = js ''sudo wg-quick up '' @ configPath"

definition link_add :: jstring where
  "link_add = js ''sudo ip link add dev erebrus-dvpn type wireguard''"

definition setconf :: "jstring \<Rightarrow> jstring" where
  "setconf tempConf = js ''sudo wg setconf erebrus-dvpn '' @ tempConf"

definition addr_add :: "jstring \<Rightarrow> jstring" where
  "addr_add address = js ''sudo ip addr add '' @ address @ js '' dev erebrus-dvpn''"

definition link_up :: jstring where
  "link_up = js ''sudo ip link set mtu 1420 up dev erebrus-dvpn''"

definition route_add :: jstring where
  "route_add = js ''sudo ip route add default dev erebrus-dvpn''"

definition commands :: "jstring \<Rightarrow> jstring \<Rightarrow> jstring list" where
  "commands tempConf address =
     [link_add, setconf tempConf, addr_add address, link_up, route_add]"

definition wgConf :: "parsed_config \<Rightarrow> jstring" where
  "wgConf c =
     js ''private_key='' @ pc_privateKey c @ js ''\<newline>public_key='' @ pc_publicKey c
     @ js ''\<newline>preshared_key='' @ pc_presharedKey c @ js ''\<newline>endpoint='' @ pc_endpoint c
     @ js ''\<newline>allowed_ip=0.0.0.0/0\<newline>allowed_ip=::/0\<newline>''"

fun execCommands :: "'w host \<Rightarrow> jstring \<Rightarrow> jstring list \<Rightarrow> 'w run \<Rightarrow> bool outcome \<times> 'w run" where
  "execCommands h tempConf [] s =
     (case unlink h tempConf s of (r, s1) \<Rightarrow> (Resolved True, s1))"
| "execCommands h tempConf (c # cs) s =
     (case exec h c s of
        ((Some cmdErr, out, err), s1) \<Rightarrow>
          (case exec h link_delete s1 of (r2, s2) \<Rightarrow>
           (case unlink h tempConf s2 of (r3, s3) \<Rightarrow> (Rejected cmdErr, s3)))
      | ((None, out, err), s1) \<Rightarrow> execCommands h tempConf cs s1)"

definition dns_fix :: jstring where
  "dns_fix = js ''echo '' @ [34] @ js ''nameserver 1.1.1.1'' @ [34]
     @ js '' | sudo tee /etc/resolv.conf > /dev/null''"

definition ping :: jstring where
  "ping = js ''ping -c 1 8.8.8.8''"

definition connectToWireGuard :: "'w host \<Rightarrow> jstring \<Rightarrow> 'w run \<Rightarrow> bool outcome \<times> 'w run" where
  "connectToWireGuard h configPath s =
     (case cleanupWireGuard h s of (u, s1) \<Rightarrow>
      (case exec h (wg_quick_up configPath) s1 of
         ((Some error, stdout, stderr), s2) \<Rightarrow>
           (case readFile h configPath s2 of
              (Inl readErr, s3) \<Rightarrow> (Rejected readErr, s3)
            | (Inr data, s3) \<Rightarrow>
                (case parseConfig data of
                   None \<Rightarrow> (Uncaught TypeError, s3)
                 | Some c \<Rightarrow>
                     (case now h s3 of (t, s4) \<Rightarrow>
                      let tempConf = js ''/tmp/wg-temp-'' @ decimal t @ js ''.conf'' in
                      (case writeFile h tempConf (wgConf c) 384 s4 of
                         (Some writeErr, s5) \<Rightarrow> (Rejected writeErr, s5)
                       | (None, s5) \<Rightarrow>
                           execCommands h tempConf (commands tempConf (pc_address c)) s5))))
       | ((None, stdout, stderr), s2) \<Rightarrow>
           (case exec h dns_fix s2 of (r3, s3) \<Rightarrow>
            (case exec h ping (setTimeout 2000 s3) of (r4, s4) \<Rightarrow> (Resolved True, s4)))))"

section \<open>The connection\<close>

definition curl :: jstring where
  "curl = js ''curl -s https://api.ipify.org''"

text \<open>
  \<^verbatim>\<open>connectDvpn\<close>. \<^verbatim>\<open>log(client)\<close> converts the client data to a string;
  when that throws, the outer \<^verbatim>\<open>catch\<close> returns \<^verbatim>\<open>false\<close>. The inner
  \<^verbatim>\<open>try\<close> turns a rejection of \<^verbatim>\<open>connectToWireGuard\<close> into
  \<^verbatim>\<open>false\<close>; a promise that is never settled leaves \<^verbatim>\<open>connectDvpn\<close>
  unsettled too.
\<close>

definition connectDvpn :: "'w host \<Rightarrow> jstring \<Rightarrow> jstring \<Rightarrow> 'w run \<Rightarrow> bool outcome \<times> 'w run" where
  "connectDvpn h token nodeId s =
     (case checkWireGuard h s of
        (False, s1) \<Rightarrow> (Resolved False, s1)
      | (True, s1) \<Rightarrow>
     (case getAllNodes h token s1 of (nodes, s2) \<Rightarrow>
        if length nodes = 0 then (Resolved False, s2)
        else
     (case find (\<lambda>n. node_id n = nodeId) nodes of
        None \<Rightarrow> (Resolved False, s2)
      | Some selectedNode \<Rightarrow>
     (case createClient h token nodeId (js ''client'') s2 of
        (None, s3) \<Rightarrow> (Resolved False, s3)
      | (Some client, s3) \<Rightarrow>
        if \<not> cd_printable client then (Resolved False, s3)
        else
     (case createWireGuardConfig h client s3 of
        (None, s4) \<Rightarrow> (Resolved False, s4)
      | (Some configPath, s4) \<Rightarrow>
     (case connectToWireGuard h configPath s4 of
        (Resolved b, s5) \<Rightarrow> (case exec h curl s5 of (r, s6) \<Rightarrow> (Resolved True, s6))
      | (Rejected error, s5) \<Rightarrow> (Resolved False, s5)
      | (Uncaught error, s5) \<Rightarrow> (Uncaught error, s5)))))))"

section \<open>A host for examples\<close>

text \<open>
  A host whose answers do not depend on the world: \<open>ex\<close> answers \<^verbatim>\<open>exec\<close>,
  \<open>rd\<close> answers \<^verbatim>\<open>readFile\<close>, every write, removal and \<^verbatim>\<open>mkdir\<close>
  succeeds, and the world is the clock.
\<close>

definition static_host ::
  "(jstring \<Rightarrow> exec_result) \<Rightarrow> (jstring \<Rightarrow> js_error + jstring) \<Rightarrow> node_directory fetched
   \<Rightarrow> client_reply \<Rightarrow> parsed_reply option \<Rightarrow> nat host" where
  "static_host ex rd nodes reply parsed =
     \<lparr>h_exec = (\<lambda>c w. (ex c, w)),
      h_readFile = (\<lambda>p w. (rd p, w)),
      h_writeFile = (\<lambda>p c m w. (None, w)),
      h_unlink = (\<lambda>p w. (None, w)),
      h_mkdir = (\<lambda>p w. (None, w)),
      h_rm = (\<lambda>p w. (None, w)),
      h_now = (\<lambda>w. (w, w)),
      h_fetch_nodes = (\<lambda>t w. (nodes, w)),
      h_fetch_client = (\<lambda>t n b w. (reply, w)),
      h_JSON_parse = (\<lambda>t. parsed)\<rparr>"

definition exec_ok :: exec_result where
  "exec_ok = (None, [], [])"

definition exec_failed :: exec_result where
  "exec_failed = (Some (Error (js ''Command failed'')), [], [])"

definition example_client :: client_data where
  "example_client =
     \<lparr>cd_payload = Some \<lparr>pp_client = Some \<lparr>ci_Address = Some [js ''10.0.0.2/32''],
                                            ci_PresharedKey = Some (js ''cHNr='')\<rparr>,
                          pp_endpoint = Some (js ''vpn.example.org''),
                          pp_serverPublicKey = Some (js ''c2VydmVy='')\<rparr>,
      cd_privateKey = js ''cHJpdg='', cd_presharedKey = js ''bG9jYWw='',
      cd_printable = True\<rparr>"

definition example_config :: jstring where
  "example_config =
     configContent (js ''cHJpdg='') (js ''10.0.0.2/32'') (js ''c2VydmVy='') (js ''cHNr='')
       (js ''vpn.example.org'')"

definition example_tempConf :: jstring where
  "example_tempConf = js ''/tmp/wg-temp-0.conf''"

text \<open>Hosts on which \<^verbatim>\<open>wg-quick up\<close> fails and the configuration file is readable.\<close>

definition primary_fails :: "jstring \<Rightarrow> exec_result" where
  "primary_fails c = (if c = wg_quick_up configPath_default then exec_failed else exec_ok)"

definition setconf_fails :: "jstring \<Rightarrow> exec_result" where
  "setconf_fails c =
     (if c = wg_quick_up configPath_default \<or> c = setconf example_tempConf
      then exec_failed else exec_ok)"

definition fallback_host :: "(jstring \<Rightarrow> exec_result) \<Rightarrow> nat host" where
  "fallback_host ex = static_host ex (\<lambda>p. Inr example_config) (Json None) (RawText []) None"


text \<open>Hosts with WireGuard installed and a given answer of the node directory.\<close>

definition which_wg :: "jstring \<Rightarrow> exec_result" where
  "which_wg c = (None, js ''/usr/bin/wg\<newline>'', [])"

definition directory_host :: "node option list \<Rightarrow> nat host" where
  "directory_host nodes =
     static_host which_wg (\<lambda>p. Inr (js ''a2V5\<newline>'')) (Json (Some nodes)) (RawText []) None"

definition offline_host :: "nat host" where
  "offline_host =
     static_host which_wg (\<lambda>p. Inr (js ''a2V5\<newline>''))
       (FetchError (Error (js ''ECONNREFUSED''))) (RawText []) None"

text \<open>
  A host on which the key files \<^verbatim>\<open>private.key\<close> and \<^verbatim>\<open>public.key\<close> hold a
  single line feed, and the preshared key file a key.
\<close>

definition blank_keys :: "jstring \<Rightarrow> js_error + jstring" where
  "blank_keys p =
     (if strip_prefix (js ''/tmp/wg-psk-'') p \<noteq> None then Inr (js ''cHNr=\<newline>'')
      else Inr (js ''\<newline>''))"

definition blank_key_host :: "nat host" where
  "blank_key_host =
     static_host (\<lambda>c. exec_ok) blank_keys (Json None) (RawText (js ''{}''))
       (Some \<lparr>pr_payload = None, pr_printable = True\<rparr>)"

text \<open>Hosts on which no key file can be read, and on which every command fails.\<close>

definition no_file_host :: "nat host" where
  "no_file_host =
     static_host (\<lambda>c. exec_ok) (\<lambda>p. Inl (Error (js ''ENOENT''))) (Json None) (RawText []) None"

definition no_command_host :: "nat host" where
  "no_command_host =
     static_host (\<lambda>c. exec_failed) (\<lambda>p. Inr []) (Json None) (RawText []) None"




section \<open>A file system with permission bits\<close>

text \<open>
  \<^verbatim>\<open>fs.promises.writeFile(path, data, { mode })\<close> opens the file with the flag
  \<^verbatim>\<open>w\<close> (create or truncate) and hands \<^verbatim>\<open>mode\<close> to \<^verbatim>\<open>open(2)\<close>, which
  uses it only when it creates the file, and then as \<^verbatim>\<open>mode & ~umask\<close>. An
  existing file is truncated and keeps its permission bits; without the owner's write
  bit (0200, that is 128) it cannot be opened for writing.
\<close>

record fs_file =
  f_content :: jstring
  f_mode :: mode

record posix_fs =
  files :: "jstring \<Rightarrow> fs_file option"
  umask :: mode

definition posix_writeFile ::
  "jstring \<Rightarrow> jstring \<Rightarrow> mode \<Rightarrow> posix_fs \<Rightarrow> js_error option \<times> posix_fs" where
  "posix_writeFile path data m fs =
     (case files fs path of
        None \<Rightarrow>
          (None, fs\<lparr>files := (files fs)(path \<mapsto>
                   \<lparr>f_content = data, f_mode = m AND NOT (umask fs)\<rparr>)\<rparr>)
      | Some f \<Rightarrow>
          if f_mode f AND 128 = 0 then (Some (Error (js ''EACCES'')), fs)
          else (None, fs\<lparr>files := (files fs)(path \<mapsto> f\<lparr>f_content := data\<rparr>)\<rparr>))"

definition posix_host :: "posix_fs host" where
  "posix_host =
     \<lparr>h_exec = (\<lambda>c w. (exec_ok, w)),
      h_readFile = (\<lambda>p w. (case files w p of None \<Rightarrow> Inl (Error (js ''ENOENT''))
                                | Some f \<Rightarrow> Inr (f_content f), w)),
      h_writeFile = posix_writeFile,
      h_unlink = (\<lambda>p w. (None, w\<lparr>files := (files w)(p := None)\<rparr>)),
      h_mkdir = (\<lambda>p w. (None, w)),
      h_rm = (\<lambda>p w. (None, w)),
      h_now = (\<lambda>w. (0, w)),
      h_fetch_nodes = (\<lambda>t w. (Json None, w)),
      h_fetch_client = (\<lambda>t n b w. (RawText [], w)),
      h_JSON_parse = (\<lambda>t. None)\<rparr>"

text \<open>
  A file system on which the configuration file exists already, with the bits 0644
  (420), under the usual umask 022 (18).
\<close>

definition stale_fs :: posix_fs where
  "stale_fs =
     \<lparr>files = (\<lambda>p. None)(configPath_default \<mapsto> \<lparr>f_content = js ''old'', f_mode = 420\<rparr>),
      umask = 18\<rparr>"

section \<open>Observations on a run\<close>

text \<open>
  What the steps of \<^verbatim>\<open>connectToWireGuard\<close> give on a host: the error of
  \<^verbatim>\<open>wg-quick up\<close> after the cleanup; what reading the configuration file gives
  after that; and what writing the temporary file gives (\<open>None\<close> when the file was
  not read or not parsed, so that the write is not reached).
\<close>

definition primary_error :: "'w host \<Rightarrow> jstring \<Rightarrow> 'w run \<Rightarrow> js_error option" where
  "primary_error h configPath s =
     fst (fst (exec h (wg_quick_up configPath) (snd (cleanupWireGuard h s))))"

definition config_read :: "'w host \<Rightarrow> jstring \<Rightarrow> 'w run \<Rightarrow> js_error + jstring" where
  "config_read h configPath s =
     fst (readFile h configPath
            (snd (exec h (wg_quick_up configPath) (snd (cleanupWireGuard h s)))))"

definition temp_write :: "'w host \<Rightarrow> jstring \<Rightarrow> 'w run \<Rightarrow> js_error option option" where
  "temp_write h configPath s =
     (case readFile h configPath
             (snd (exec h (wg_quick_up configPath) (snd (cleanupWireGuard h s)))) of
        (Inl readErr, s3) \<Rightarrow> None
      | (Inr data, s3) \<Rightarrow>
          (case parseConfig data of
             None \<Rightarrow> None
           | Some c \<Rightarrow>
               (case now h s3 of (t, s4) \<Rightarrow>
                  Some (fst (writeFile h (js ''/tmp/wg-temp-'' @ decimal t @ js ''.conf'')
                               (wgConf c) 384 s4)))))"


text \<open>The events that a call has added to the trace.\<close>

definition events_since :: "'w run \<Rightarrow> 'w run \<Rightarrow> event list" where
  "events_since s s' = drop (length (trace s)) (trace s')"

text \<open>How often a command was executed, whatever its result.\<close>

definition runs :: "jstring \<Rightarrow> event list \<Rightarrow> nat" where
  "runs c tr = length (filter (\<lambda>ev. case ev of Exec c' x \<Rightarrow> c' = c | _ \<Rightarrow> False) tr)"

text \<open>
  \<^verbatim>\<open>createClient\<close> starts with \<^verbatim>\<open>generateWireGuardKeyPair\<close>, whose first call
  creates the key directory, and ends with the provisioning request.
\<close>

definition provisioning_started :: "event list \<Rightarrow> bool" where
  "provisioning_started tr =
     list_ex (\<lambda>ev. case ev of Mkdir p \<Rightarrow> True | HttpPost u b \<Rightarrow> True | _ \<Rightarrow> False) tr"

text \<open>The answers of the node directory for which \<^verbatim>\<open>getAllNodes\<close> ends in its \<^verbatim>\<open>catch\<close>.\<close>

definition retrieval_failed :: "node_directory fetched \<Rightarrow> bool" where
  "retrieval_failed r =
     (case r of
        FetchError e \<Rightarrow> True
      | JsonError e \<Rightarrow> True
      | Json None \<Rightarrow> True
      | Json (Some payload) \<Rightarrow> None \<in> set payload)"

section \<open>The round trip through the configuration file\<close>

lemma strip_prefix_Some: "strip_prefix kw s = Some r \<longleftrightarrow> s = kw @ r"
  by (induction kw s rule: strip_prefix.induct) auto

lemma match_here_no_prefix: "strip_prefix kw s = None \<Longrightarrow> match_here kw s = None"
  by (simp add: match_here_def)

lemma dropWhile_ws_free: "ws_free v \<Longrightarrow> v \<noteq> [] \<Longrightarrow> dropWhile is_space (v @ r) = v @ r"
  by (cases v) (auto simp: ws_free_def)

lemma takeWhile_ws_free:
  "ws_free v \<Longrightarrow> is_space c \<Longrightarrow> takeWhile (\<lambda>x. \<not> is_space x) (v @ c # r) = v"
  by (induction v) (auto simp: ws_free_def)

lemma match_here_value:
  assumes "ws_free v" "v \<noteq> []" "is_space c"
  shows "match_here kw (kw @ 32 # 61 # 32 # v @ c # r) = Some v"
proof -
  have sp: "is_space 32" "\<not> is_space 61" by (simp_all add: is_space_def)
  have st: "strip_prefix kw (kw @ 32 # 61 # 32 # v @ c # r) = Some (32 # 61 # 32 # v @ c # r)"
    by (simp add: strip_prefix_Some)
  have d: "dropWhile is_space (32 # v @ c # r) = v @ c # r"
    using sp assms by (simp add: dropWhile_ws_free)
  have t: "takeWhile (\<lambda>x. \<not> is_space x) (v @ c # r) = v"
    using assms by (simp add: takeWhile_ws_free)
  obtain x xs where v: "v = x # xs" using assms(2) by (cases v) auto
  show ?thesis
    unfolding match_here_def st using sp d t v by simp
qed

lemma match_field_skip_value:
  assumes "ws_free v" "\<not> assigns kw v" "10 \<notin> set kw" "\<not> is_space c" "c \<noteq> 61"
  shows "match_field kw (v @ 10 # c # r) = match_field kw (10 # c # r)"
  using assms(1,2)
proof (induction v)
  case Nil
  show ?case by simp
next
  case (Cons a v)
  have nl: "is_space 10" by (simp add: is_space_def)
  have wf: "ws_free v" "\<not> is_space a" using Cons.prems(1) by (simp_all add: ws_free_def)
  have na: "\<not> assigns kw v" "strip_prefix (kw @ [61]) (a # v) = None"
    using Cons.prems(2) by (simp_all add: assigns_def)
  have "match_here kw (a # v @ 10 # c # r) = None"
  proof (cases "strip_prefix kw (a # v @ 10 # c # r)")
    case None
    then show ?thesis by (simp add: match_here_def)
  next
    case (Some t)
    then have eq: "(a # v) @ 10 # c # r = kw @ t" by (simp add: strip_prefix_Some)
    then obtain us where "(a # v = kw @ us \<and> us @ 10 # c # r = t) \<or> ((a # v) @ us = kw \<and> 10 # c # r = us @ t)"
      unfolding append_eq_append_conv2 by blast
    then consider us where "a # v = kw @ us" "t = us @ 10 # c # r"
      | us where "(a # v) @ us = kw" "10 # c # r = us @ t" "us \<noteq> []"
      by (cases "us = []") auto
    then show ?thesis
    proof cases
      case 1
      show ?thesis
      proof (cases us)
        case Nil
        then show ?thesis using Some 1 nl assms(4,5) by (simp add: match_here_def)
      next
        case (Cons u us')
        then have "u \<in> set (a # v)" using 1(1) by (metis in_set_conv_decomp)
        then have nu: "\<not> is_space u" using Cons.prems(1) by (auto simp: ws_free_def list_all_iff)
        have "u \<noteq> 61"
        proof
          assume "u = 61"
          then have "a # v = (kw @ [61]) @ us'" using 1(1) Cons by simp
          then have "strip_prefix (kw @ [61]) (a # v) = Some us'" by (simp only: strip_prefix_Some)
          then show False using na(2) by simp
        qed
        then show ?thesis using Some 1 Cons nu by (simp add: match_here_def)
      qed
    next
      case 2
      then have "10 \<in> set kw" by (cases us) auto
      then show ?thesis using assms(3) by simp
    qed
  qed
  then show ?case using Cons.IH wf na by simp
qed

lemma ws_free_port: "ws_free ep \<Longrightarrow> ws_free (ep @ js '':51820'')"
  by (simp add: ws_free_def js_def is_space_def)

lemma rt_privateKey:
  assumes "field_value pk"
  shows "match_field (js ''PrivateKey'') (configContent pk ad spk psk ep) = Some pk"
proof -
  have "match_here (js ''PrivateKey'') (js ''PrivateKey'' @ 32 # 61 # 32 # pk @ 10 # r) = Some pk" for r
    using assms by (intro match_here_value) (simp_all add: field_value_def is_space_def)
  note m = this [unfolded js_def, simplified]
  show ?thesis
    by (simp add: configContent_def js_def m match_here_no_prefix)
qed

lemma rt_address:
  assumes "field_value pk" "field_value ad" "\<not> assigns (js ''Address'') pk"
  shows "match_field (js ''Address'') (configContent pk ad spk psk ep) = Some ad"
proof -
  have "match_here (js ''Address'') (js ''Address'' @ 32 # 61 # 32 # ad @ 10 # r) = Some ad" for r
    using assms by (intro match_here_value) (simp_all add: field_value_def is_space_def)
  note m = this [unfolded js_def, simplified]
  have "match_field (js ''Address'') (pk @ 10 # 65 # r) = match_field (js ''Address'') (10 # 65 # r)" for r
    using assms by (intro match_field_skip_value) (simp_all add: field_value_def is_space_def js_def)
  note s1 = this [unfolded js_def, simplified]
  show ?thesis
    by (simp add: configContent_def js_def m s1 match_here_no_prefix)
qed

lemma rt_publicKey:
  assumes "field_value pk" "field_value ad" "field_value spk"
    "\<not> assigns (js ''PublicKey'') pk" "\<not> assigns (js ''PublicKey'') ad"
  shows "match_field (js ''PublicKey'') (configContent pk ad spk psk ep) = Some spk"
proof -
  have "match_here (js ''PublicKey'') (js ''PublicKey'' @ 32 # 61 # 32 # spk @ 10 # r) = Some spk" for r
    using assms by (intro match_here_value) (simp_all add: field_value_def is_space_def)
  note m = this [unfolded js_def, simplified]
  have "match_field (js ''PublicKey'') (pk @ 10 # 65 # r) = match_field (js ''PublicKey'') (10 # 65 # r)" for r
    using assms by (intro match_field_skip_value) (simp_all add: field_value_def is_space_def js_def)
  note s1 = this [unfolded js_def, simplified]
  have "match_field (js ''PublicKey'') (ad @ 10 # 68 # r) = match_field (js ''PublicKey'') (10 # 68 # r)" for r
    using assms by (intro match_field_skip_value) (simp_all add: field_value_def is_space_def js_def)
  note s2 = this [unfolded js_def, simplified]
  show ?thesis
    by (simp add: configContent_def js_def m s1 s2 match_here_no_prefix)
qed

lemma rt_presharedKey:
  assumes "field_value pk" "field_value ad" "field_value spk" "field_value psk"
    "\<not> assigns (js ''PresharedKey'') pk" "\<not> assigns (js ''PresharedKey'') ad"
    "\<not> assigns (js ''PresharedKey'') spk"
  shows "match_field (js ''PresharedKey'') (configContent pk ad spk psk ep) = Some psk"
proof -
  have "match_here (js ''PresharedKey'') (js ''PresharedKey'' @ 32 # 61 # 32 # psk @ 10 # r) = Some psk" for r
    using assms by (intro match_here_value) (simp_all add: field_value_def is_space_def)
  note m = this [unfolded js_def, simplified]
  have "match_field (js ''PresharedKey'') (pk @ 10 # 65 # r) = match_field (js ''PresharedKey'') (10 # 65 # r)" for r
    using assms by (intro match_field_skip_value) (simp_all add: field_value_def is_space_def js_def)
  note s1 = this [unfolded js_def, simplified]
  have "match_field (js ''PresharedKey'') (ad @ 10 # 68 # r) = match_field (js ''PresharedKey'') (10 # 68 # r)" for r
    using assms by (intro match_field_skip_value) (simp_all add: field_value_def is_space_def js_def)
  note s2 = this [unfolded js_def, simplified]
  have "match_field (js ''PresharedKey'') (spk @ 10 # 80 # r) = match_field (js ''PresharedKey'') (10 # 80 # r)" for r
    using assms by (intro match_field_skip_value) (simp_all add: field_value_def is_space_def js_def)
  note s3 = this [unfolded js_def, simplified]
  show ?thesis
    by (simp add: configContent_def js_def m s1 s2 s3 match_here_no_prefix)
qed

lemma rt_endpoint:
  assumes "field_value pk" "field_value ad" "field_value spk" "field_value psk" "ws_free ep"
    "\<not> assigns (js ''Endpoint'') pk" "\<not> assigns (js ''Endpoint'') ad"
    "\<not> assigns (js ''Endpoint'') spk" "\<not> assigns (js ''Endpoint'') psk"
  shows "match_field (js ''Endpoint'') (configContent pk ad spk psk ep) = Some (ep @ js '':51820'')"
proof -
  have "match_here (js ''Endpoint'') (js ''Endpoint'' @ 32 # 61 # 32 # (ep @ js '':51820'') @ 10 # r)
          = Some (ep @ js '':51820'')" for r
    using assms by (intro match_here_value ws_free_port) (simp_all add: is_space_def js_def)
  note m = this [unfolded js_def, simplified]
  have "match_field (js ''Endpoint'') (pk @ 10 # 65 # r) = match_field (js ''Endpoint'') (10 # 65 # r)" for r
    using assms by (intro match_field_skip_value) (simp_all add: field_value_def is_space_def js_def)
  note s1 = this [unfolded js_def, simplified]
  have "match_field (js ''Endpoint'') (ad @ 10 # 68 # r) = match_field (js ''Endpoint'') (10 # 68 # r)" for r
    using assms by (intro match_field_skip_value) (simp_all add: field_value_def is_space_def js_def)
  note s2 = this [unfolded js_def, simplified]
  have "match_field (js ''Endpoint'') (spk @ 10 # 80 # r) = match_field (js ''Endpoint'') (10 # 80 # r)" for r
    using assms by (intro match_field_skip_value) (simp_all add: field_value_def is_space_def js_def)
  note s3 = this [unfolded js_def, simplified]
  have "match_field (js ''Endpoint'') (psk @ 10 # 65 # r) = match_field (js ''Endpoint'') (10 # 65 # r)" for r
    using assms by (intro match_field_skip_value) (simp_all add: field_value_def is_space_def js_def)
  note s4 = this [unfolded js_def, simplified]
  show ?thesis
    by (simp add: configContent_def js_def m s1 s2 s3 s4 match_here_no_prefix)
qed


lemma shadows_simps:
  "shadows [] v = False" "shadows (k # ks) v = (assigns k v \<or> shadows ks v)"
  by (simp_all add: shadows_def)

lemma parseConfig_configContent:
  assumes "field_value pk" "field_value ad" "field_value spk" "field_value psk" "ws_free ep"
    and "\<not> shadows [js ''Address'', js ''PublicKey'', js ''PresharedKey'', js ''Endpoint''] pk"
    and "\<not> shadows [js ''PublicKey'', js ''PresharedKey'', js ''Endpoint''] ad"
    and "\<not> shadows [js ''PresharedKey'', js ''Endpoint''] spk"
    and "\<not> shadows [js ''Endpoint''] psk"
  shows "parseConfig (configContent pk ad spk psk ep) =
           Some \<lparr>pc_privateKey = pk, pc_address = ad, pc_publicKey = spk,
                 pc_presharedKey = psk, pc_endpoint = ep @ js '':51820''\<rparr>"
  using assms unfolding parseConfig_def shadows_simps
  by (simp add: rt_privateKey rt_address rt_publicKey rt_presharedKey rt_endpoint)

text \<open>
  Claim C1, as the code has it. Let the provisioning reply hold a client address, a
  server public key, a preshared key and an endpoint host, and let the private key,
  the address and the two peer keys be non-empty and free of white space, the endpoint
  host free of white space, and let no value that precedes a field in the file contain
  that field's name directly followed by \<^verbatim>\<open>=\<close>. Then the text that
  \<^verbatim>\<open>createWireGuardConfig\<close> writes is parsed back by the manual path to the
  same private key, address, peer public key and preshared key, and to the endpoint
  host followed by \<^verbatim>\<open>:51820\<close>, the port that the synthesis appends.
\<close>

theorem config_round_trip:
  assumes "cd_payload clientData = Some p" "pp_client p = Some client"
    and "ci_Address client = Some (ad # others)" "pp_serverPublicKey p = Some spk"
    and "ci_PresharedKey client = Some psk" "pp_endpoint p = Some ep"
    and "field_value (cd_privateKey clientData)" "field_value ad" "field_value spk"
    and "field_value psk" "ws_free ep"
    and "\<not> shadows [js ''Address'', js ''PublicKey'', js ''PresharedKey'', js ''Endpoint'']
             (cd_privateKey clientData)"
    and "\<not> shadows [js ''PublicKey'', js ''PresharedKey'', js ''Endpoint''] ad"
    and "\<not> shadows [js ''PresharedKey'', js ''Endpoint''] spk"
    and "\<not> shadows [js ''Endpoint''] psk"
  shows "trace (snd (createWireGuardConfig h clientData (start w))) =
           [WriteFile configPath_default
              (configContent (cd_privateKey clientData) ad spk psk ep) 384]
         \<and> parseConfig (configContent (cd_privateKey clientData) ad spk psk ep) =
           Some \<lparr>pc_privateKey = cd_privateKey clientData, pc_address = ad,
                 pc_publicKey = spk, pc_presharedKey = psk,
                 pc_endpoint = ep @ js '':51820''\<rparr>"
proof
  show "trace (snd (createWireGuardConfig h clientData (start w))) =
           [WriteFile configPath_default
              (configContent (cd_privateKey clientData) ad spk psk ep) 384]"
    using assms(1-6)
    by (simp add: createWireGuardConfig_def writeFile_def start_def interpolate_def
        first_address_def Let_def split: prod.splits option.splits)
  show "parseConfig (configContent (cd_privateKey clientData) ad spk psk ep) =
          Some \<lparr>pc_privateKey = cd_privateKey clientData, pc_address = ad,
                pc_publicKey = spk, pc_presharedKey = psk,
                pc_endpoint = ep @ js '':51820''\<rparr>"
    using assms(7-15) by (rule parseConfig_configContent)
qed

theorem config_round_trip_witness:
  "trace (snd (createWireGuardConfig (static_host (\<lambda>c. exec_ok) (\<lambda>p. Inr []) (Json None)
       (RawText []) None) example_client (start 0))) =
     [WriteFile configPath_default
        (configContent (js ''cHJpdg='') (js ''10.0.0.2/32'') (js ''c2VydmVy='') (js ''cHNr='')
           (js ''vpn.example.org'')) 384]
   \<and> parseConfig (configContent (js ''cHJpdg='') (js ''10.0.0.2/32'') (js ''c2VydmVy='')
        (js ''cHNr='') (js ''vpn.example.org'')) =
     Some \<lparr>pc_privateKey = js ''cHJpdg='', pc_address = js ''10.0.0.2/32'',
           pc_publicKey = js ''c2VydmVy='', pc_presharedKey = js ''cHNr='',
           pc_endpoint = js ''vpn.example.org:51820''\<rparr>"
  using config_round_trip [of example_client
      "\<lparr>pp_client = Some \<lparr>ci_Address = Some [js ''10.0.0.2/32''],
                           ci_PresharedKey = Some (js ''cHNr='')\<rparr>,
        pp_endpoint = Some (js ''vpn.example.org''),
        pp_serverPublicKey = Some (js ''c2VydmVy='')\<rparr>"
      "\<lparr>ci_Address = Some [js ''10.0.0.2/32''], ci_PresharedKey = Some (js ''cHNr='')\<rparr>"
      "js ''10.0.0.2/32''" "[]" "js ''c2VydmVy=''" "js ''cHNr=''" "js ''vpn.example.org''"
      "static_host (\<lambda>c. exec_ok) (\<lambda>p. Inr []) (Json None) (RawText []) None" 0]
  by (simp add: example_client_def field_value_def ws_free_def shadows_def assigns_def
      js_def is_space_def)

text \<open>
  Claim C1 as it is stated fails. With the private key \<^verbatim>\<open>cHJp dg=\<close>, which has
  a blank in it, and the endpoint host \<^verbatim>\<open>vpn.example.org\<close>, the parser returns
  the private key \<^verbatim>\<open>cHJp\<close>, since the capture stops at white space, and the
  endpoint \<^verbatim>\<open>vpn.example.org:51820\<close>, since the synthesis appends the port.
\<close>

theorem config_round_trip_counterexample:
  "parseConfig (configContent (js ''cHJp dg='') (js ''10.0.0.2/32'') (js ''c2VydmVy='')
       (js ''cHNr='') (js ''vpn.example.org'')) =
     Some \<lparr>pc_privateKey = js ''cHJp'', pc_address = js ''10.0.0.2/32'',
           pc_publicKey = js ''c2VydmVy='', pc_presharedKey = js ''cHNr='',
           pc_endpoint = js ''vpn.example.org:51820''\<rparr>
   \<and> js ''cHJp'' \<noteq> js ''cHJp dg=''
   \<and> js ''vpn.example.org:51820'' \<noteq> js ''vpn.example.org''"
  by (simp add: parseConfig_def configContent_def match_here_def js_def is_space_def)

text \<open>
  The other two conditions are needed as well. An empty preshared key is parsed back
  as \<^verbatim>\<open>AllowedIPs\<close>, because the white space after \<^verbatim>\<open>=\<close> runs over the line
  end; and with the private key \<^verbatim>\<open>Endpoint=x\<close> the endpoint is parsed back as
  \<^verbatim>\<open>x\<close>, because the leftmost match of the endpoint pattern is inside the key.
\<close>

lemma parse_shadowed_values:
  "parseConfig (configContent (js ''Endpoint=x'') (js ''10.0.0.2/32'') (js ''c2VydmVy='') []
       (js ''vpn.example.org'')) =
     Some \<lparr>pc_privateKey = js ''Endpoint=x'', pc_address = js ''10.0.0.2/32'',
           pc_publicKey = js ''c2VydmVy='', pc_presharedKey = js ''AllowedIPs'',
           pc_endpoint = js ''x''\<rparr>"
  by (simp add: parseConfig_def configContent_def match_here_def js_def is_space_def)

section \<open>Traces\<close>

lemma exec_cases:
  obtains x out err s1 where "exec h c s = ((x, out, err), s1)" "trace s1 = trace s @ [Exec c x]"
  by (cases "h_exec h c (world s)") (auto simp: exec_def)

lemma exec_trace:
  "trace (snd (exec h c s)) = trace s @ [Exec c (fst (fst (h_exec h c (world s))))]"
  by (simp add: exec_def split: prod.splits)

lemma readFile_trace: "trace (snd (readFile h p s)) = trace s @ [ReadFile p]"
  by (simp add: readFile_def split: prod.splits)

lemma writeFile_trace: "trace (snd (writeFile h p c m s)) = trace s @ [WriteFile p c m]"
  by (simp add: writeFile_def split: prod.splits)

lemma unlink_trace: "trace (snd (unlink h p s)) = trace s @ [Unlink p]"
  by (simp add: unlink_def split: prod.splits)

lemma now_trace: "trace (snd (now h s)) = trace s"
  by (simp add: now_def split: prod.splits)

lemma getAllNodes_trace:
  "trace (snd (getAllNodes h token s)) = trace s @ [HttpGet nodes_url]"
  by (auto simp: getAllNodes_def Let_def split: prod.splits fetched.splits option.splits)

lemma checkWireGuard_trace:
  "trace (snd (checkWireGuard h s)) =
     trace s @ [Exec (js ''which wg'') (fst (fst (h_exec h (js ''which wg'') (world s))))]"
  by (auto simp: checkWireGuard_def exec_def split: prod.splits)

lemma checkWireGuard_True:
  "fst (checkWireGuard h s) \<Longrightarrow> fst (fst (h_exec h (js ''which wg'') (world s))) = None"
  by (auto simp: checkWireGuard_def exec_def split: prod.splits if_splits)

lemma generateWireGuardKeyPair_trace:
  "prefix (trace s @ [Mkdir (js ''/tmp/wg-keys-'' @ decimal (fst (h_now h (world s))))])
     (trace (snd (generateWireGuardKeyPair h s)))"
  unfolding generateWireGuardKeyPair_def Let_def
  by (auto simp: prefix_def now_def mkdir_def exec_def readFile_def rm_def
      split: prod.splits option.splits sum.splits)

lemma generatePresharedKey_trace:
  "prefix (trace s) (trace (snd (generatePresharedKey h s)))"
  unfolding generatePresharedKey_def Let_def
  by (auto simp: prefix_def now_def exec_def readFile_def unlink_def
      split: prod.splits option.splits sum.splits)

lemma createClient_trace:
  "prefix (trace s @ [Mkdir (js ''/tmp/wg-keys-'' @ decimal (fst (h_now h (world s))))])
     (trace (snd (createClient h token nodeId name s)))"
proof -
  let ?m = "trace s @ [Mkdir (js ''/tmp/wg-keys-'' @ decimal (fst (h_now h (world s))))]"
  obtain k s1 where g: "generateWireGuardKeyPair h s = (k, s1)"
    by (cases "generateWireGuardKeyPair h s")
  have p1: "prefix ?m (trace s1)" using generateWireGuardKeyPair_trace [of s h] g by simp
  obtain q s2 where q: "generatePresharedKey h s1 = (q, s2)"
    by (cases "generatePresharedKey h s1")
  have p2: "prefix ?m (trace s2)"
    using generatePresharedKey_trace [of s1 h] q p1 by (auto intro: prefix_order.trans)
  have p3: "prefix ?m (trace s2 @ es)" for es using p2 by (simp add: prefix_prefix)
  show ?thesis
    using g q p1 p2 p3
    by (auto simp: createClient_def Let_def
        split: prod.splits option.splits client_reply.splits)
qed

lemma createWireGuardConfig_trace:
  "prefix (trace s) (trace (snd (createWireGuardConfig h c s)))"
  by (auto simp: createWireGuardConfig_def Let_def writeFile_def
      split: prod.splits option.splits)


lemma execCommands_trace: "prefix (trace s) (trace (snd (execCommands h tc cs s)))"
proof (induction cs arbitrary: s)
  case Nil
  show ?case by (simp add: unlink_def split: prod.splits)
next
  case (Cons c cs)
  have "prefix (trace s) (trace (snd (exec h c s)))" by (simp add: exec_trace)
  then have "prefix (trace s) (trace (snd (execCommands h tc cs (snd (exec h c s)))))"
    using Cons.IH prefix_order.trans by blast
  then show ?case
    by (auto simp: exec_trace unlink_trace prefix_prefix split: prod.splits option.splits)
       (auto simp: exec_def unlink_def split: prod.splits)
qed

lemma connectToWireGuard_trace: "prefix (trace s) (trace (snd (connectToWireGuard h p s)))"
proof -
  have e: "prefix (trace s) (trace (snd (execCommands h tc cs s')))"
    if "prefix (trace s) (trace s')" for tc cs s'
    using that execCommands_trace prefix_order.trans by blast
  show ?thesis
    unfolding connectToWireGuard_def cleanupWireGuard_def Let_def
    by (auto simp: exec_def readFile_def writeFile_def now_def setTimeout_def
        intro!: e split: prod.splits option.splits sum.splits)
qed

lemma provisioning_started_prefix:
  "prefix (xs @ [Mkdir d]) tr \<Longrightarrow> provisioning_started tr"
  by (auto simp: provisioning_started_def prefix_def list_ex_iff)

lemma not_started:
  "\<not> provisioning_started [Exec c x, HttpGet u]" "\<not> provisioning_started [Exec c x]"
  by (simp_all add: provisioning_started_def)

section \<open>Teardown\<close>


section \<open>The node directory\<close>

lemma getAllNodes_failed:
  "retrieval_failed (fst (h_fetch_nodes h token (world s))) \<Longrightarrow> fst (getAllNodes h token s) = []"
  by (auto simp: getAllNodes_def retrieval_failed_def Let_def
      split: prod.splits fetched.splits option.splits)

lemma getAllNodes_active:
  "fst (h_fetch_nodes h token (world s)) = Json (Some payload) \<Longrightarrow> None \<notin> set payload \<Longrightarrow>
   fst (getAllNodes h token s) = filter (\<lambda>n. node_status n = js ''active'') (map the payload)"
  by (auto simp: getAllNodes_def Let_def split: prod.splits fetched.splits option.splits)

lemma find_None_id:
  "nodeId \<notin> node_id ` set nodes \<Longrightarrow> find (\<lambda>n. node_id n = nodeId) nodes = None"
  by (auto simp: find_None_iff)

lemma connectDvpn_not_member:
  assumes "nodeId \<notin> node_id ` set (fst (getAllNodes h token (snd (checkWireGuard h s))))"
  shows "fst (connectDvpn h token nodeId s) = Resolved False"
    and "trace (snd (connectDvpn h token nodeId s)) =
           (if fst (checkWireGuard h s)
            then trace (snd (getAllNodes h token (snd (checkWireGuard h s))))
            else trace (snd (checkWireGuard h s)))"
  using assms find_None_id [OF assms]
  by (auto simp: connectDvpn_def split: prod.splits bool.splits)

lemma connectDvpn_member:
  assumes "fst (checkWireGuard h s)"
    and "nodeId \<in> node_id ` set (fst (getAllNodes h token (snd (checkWireGuard h s))))"
  shows "provisioning_started (trace (snd (connectDvpn h token nodeId s)))"
proof -
  obtain s1 where c: "checkWireGuard h s = (True, s1)"
    using assms(1) by (cases "checkWireGuard h s") auto
  obtain nodes s2 where g: "getAllNodes h token s1 = (nodes, s2)"
    by (cases "getAllNodes h token s1")
  have mem: "nodeId \<in> node_id ` set nodes" using assms(2) c g by simp
  then obtain n where f: "find (\<lambda>n. node_id n = nodeId) nodes = Some n"
    by (cases "find (\<lambda>n. node_id n = nodeId) nodes") (auto simp: find_None_iff)
  have ne: "nodes \<noteq> []" using mem by auto
  define m where
    "m = trace s2 @ [Mkdir (js ''/tmp/wg-keys-'' @ decimal (fst (h_now h (world s2))))]"
  obtain cl s3 where cc: "createClient h token nodeId (js ''client'') s2 = (cl, s3)"
    by (cases "createClient h token nodeId (js ''client'') s2")
  have p3: "prefix m (trace s3)"
    using createClient_trace [of s2 h token nodeId "js ''client''"] cc by (simp add: m_def)
  have "prefix m (trace (snd (connectDvpn h token nodeId s)))"
  proof (cases cl)
    case None
    then show ?thesis using c g f ne cc p3 by (simp add: connectDvpn_def)
  next
    case (Some client)
    obtain cp s4 where w: "createWireGuardConfig h client s3 = (cp, s4)"
      by (cases "createWireGuardConfig h client s3")
    have p4: "prefix m (trace s4)"
      using createWireGuardConfig_trace [of s3 h client] w p3 prefix_order.trans by fastforce
    show ?thesis
    proof (cases "cd_printable client")
      case False
      then show ?thesis using c g f ne cc Some p3 by (simp add: connectDvpn_def)
    next
      case True
      show ?thesis
      proof (cases cp)
        case None
        then show ?thesis
          using c g f ne cc \<open>cl = Some client\<close> True w p4 by (simp add: connectDvpn_def)
      next
        case (Some path)
        obtain r s5 where k: "connectToWireGuard h path s4 = (r, s5)"
          by (cases "connectToWireGuard h path s4")
        have p5: "prefix m (trace s5)"
          using connectToWireGuard_trace [of s4 h path] k p4 prefix_order.trans by fastforce
        have p6: "prefix m (trace (snd (exec h curl s5)))"
          using p5 by (simp add: exec_trace prefix_prefix)
        show ?thesis
          using c g f ne cc \<open>cl = Some client\<close> True w Some k p5 p6
          by (cases r) (auto simp: connectDvpn_def split: prod.splits)
      qed
    qed
  qed
  then show ?thesis unfolding m_def by (rule provisioning_started_prefix)
qed

text \<open>
  Claim C10. \<^verbatim>\<open>getAllNodes\<close> always returns a list. When the request fails, the
  body is not JSON, the payload is not an array or an entry of it is \<^verbatim>\<open>null\<close>,
  the list is empty; otherwise it is the entries of the payload whose status is
  \<^verbatim>\<open>active\<close>, in their order. \<^verbatim>\<open>connectDvpn\<close>, with WireGuard installed,
  does the same after a failed retrieval and after an empty directory: it runs
  \<^verbatim>\<open>which wg\<close>, asks the directory, and resolves with \<^verbatim>\<open>false\<close>; and so
  it does whenever \<^verbatim>\<open>getAllNodes\<close> returns the empty list, as for a directory
  without an active node.
\<close>

theorem getAllNodes_total:
  "(\<forall>(h :: 'a host) token (s :: 'a run).
      retrieval_failed (fst (h_fetch_nodes h token (world s))) \<longrightarrow>
        fst (getAllNodes h token s) = [])
   \<and> (\<forall>(h :: 'b host) token (s :: 'b run) payload.
        fst (h_fetch_nodes h token (world s)) = Json (Some payload) \<and> None \<notin> set payload \<longrightarrow>
          fst (getAllNodes h token s) =
            filter (\<lambda>n. node_status n = js ''active'') (map the payload))
   \<and> (\<forall>h token nodeId w.
        fst (checkWireGuard h (start w))
        \<and> (retrieval_failed (fst (h_fetch_nodes h token (world (snd (checkWireGuard h (start w))))))
           \<or> fst (h_fetch_nodes h token (world (snd (checkWireGuard h (start w))))) = Json (Some []))
        \<longrightarrow>
          fst (connectDvpn h token nodeId (start w)) = Resolved False
          \<and> trace (snd (connectDvpn h token nodeId (start w))) =
              [Exec (js ''which wg'') None, HttpGet nodes_url])
   \<and> (\<forall>h token nodeId w.
        fst (checkWireGuard h (start w))
        \<and> fst (getAllNodes h token (snd (checkWireGuard h (start w)))) = [] \<longrightarrow>
          fst (connectDvpn h token nodeId (start w)) = Resolved False
          \<and> trace (snd (connectDvpn h token nodeId (start w))) =
              [Exec (js ''which wg'') None, HttpGet nodes_url])"
proof (intro conjI allI impI)
  fix h :: "'a host" and token and s :: "'a run"
  assume "retrieval_failed (fst (h_fetch_nodes h token (world s)))"
  then show "fst (getAllNodes h token s) = []" by (rule getAllNodes_failed)
next
  fix h :: "'b host" and token payload and s :: "'b run"
  assume "fst (h_fetch_nodes h token (world s)) = Json (Some payload) \<and> None \<notin> set payload"
  then show "fst (getAllNodes h token s) =
      filter (\<lambda>n. node_status n = js ''active'') (map the payload)"
    by (simp add: getAllNodes_active)
next
  fix h :: "'c host" and token nodeId w
  assume a: "fst (checkWireGuard h (start w))
        \<and> (retrieval_failed (fst (h_fetch_nodes h token (world (snd (checkWireGuard h (start w))))))
           \<or> fst (h_fetch_nodes h token (world (snd (checkWireGuard h (start w))))) = Json (Some []))"
  then have "fst (getAllNodes h token (snd (checkWireGuard h (start w)))) = []"
    by (auto simp: getAllNodes_failed getAllNodes_active)
  then have m: "nodeId \<notin> node_id ` set (fst (getAllNodes h token (snd (checkWireGuard h (start w)))))"
    by simp
  show "fst (connectDvpn h token nodeId (start w)) = Resolved False"
    using m by (rule connectDvpn_not_member(1))
  show "trace (snd (connectDvpn h token nodeId (start w))) =
      [Exec (js ''which wg'') None, HttpGet nodes_url]"
    unfolding connectDvpn_not_member(2) [OF m]
    using a checkWireGuard_True [of h "start w"]
    by (simp add: getAllNodes_trace checkWireGuard_trace start_def)
next
  fix h :: "'d host" and token nodeId w
  assume a: "fst (checkWireGuard h (start w))
        \<and> fst (getAllNodes h token (snd (checkWireGuard h (start w)))) = []"
  then have m: "nodeId \<notin> node_id ` set (fst (getAllNodes h token (snd (checkWireGuard h (start w)))))"
    by simp
  show "fst (connectDvpn h token nodeId (start w)) = Resolved False"
    using m by (rule connectDvpn_not_member(1))
  show "trace (snd (connectDvpn h token nodeId (start w))) =
      [Exec (js ''which wg'') None, HttpGet nodes_url]"
    unfolding connectDvpn_not_member(2) [OF m]
    using a checkWireGuard_True [of h "start w"]
    by (simp add: getAllNodes_trace checkWireGuard_trace start_def)
qed

lemmas static_run =
  exec_def readFile_def writeFile_def unlink_def mkdir_def rm_def now_def setTimeout_def
  static_host_def start_def

theorem getAllNodes_total_witness:
  "retrieval_failed (fst (h_fetch_nodes offline_host [] (world (start 0))))
   \<and> fst (getAllNodes offline_host [] (start 0)) = []
   \<and> fst (h_fetch_nodes
        (directory_host [Some \<lparr>node_id = js ''A'', node_status = js ''active''\<rparr>,
                         Some \<lparr>node_id = js ''B'', node_status = js ''inactive''\<rparr>])
        [] (world (start 0))) =
        Json (Some [Some \<lparr>node_id = js ''A'', node_status = js ''active''\<rparr>,
                    Some \<lparr>node_id = js ''B'', node_status = js ''inactive''\<rparr>])
   \<and> fst (getAllNodes
        (directory_host [Some \<lparr>node_id = js ''A'', node_status = js ''active''\<rparr>,
                         Some \<lparr>node_id = js ''B'', node_status = js ''inactive''\<rparr>])
        [] (start 0)) = [\<lparr>node_id = js ''A'', node_status = js ''active''\<rparr>]
   \<and> fst (checkWireGuard offline_host (start 0))
   \<and> fst (connectDvpn offline_host [] (js ''A'') (start 0)) = Resolved False
   \<and> trace (snd (connectDvpn offline_host [] (js ''A'') (start 0))) =
        [Exec (js ''which wg'') None, HttpGet nodes_url]
   \<and> fst (checkWireGuard (directory_host []) (start 0))
   \<and> fst (h_fetch_nodes (directory_host []) []
        (world (snd (checkWireGuard (directory_host []) (start 0))))) = Json (Some [])
   \<and> fst (connectDvpn (directory_host []) [] (js ''A'') (start 0)) = Resolved False
   \<and> trace (snd (connectDvpn (directory_host []) [] (js ''A'') (start 0))) =
        [Exec (js ''which wg'') None, HttpGet nodes_url]
   \<and> fst (getAllNodes
        (directory_host [Some \<lparr>node_id = js ''A'', node_status = js ''inactive''\<rparr>]) []
        (snd (checkWireGuard
           (directory_host [Some \<lparr>node_id = js ''A'', node_status = js ''inactive''\<rparr>])
           (start 0)))) = []
   \<and> fst (connectDvpn
        (directory_host [Some \<lparr>node_id = js ''A'', node_status = js ''inactive''\<rparr>]) []
        (js ''A'') (start 0)) = Resolved False
   \<and> trace (snd (connectDvpn
        (directory_host [Some \<lparr>node_id = js ''A'', node_status = js ''inactive''\<rparr>]) []
        (js ''A'') (start 0))) = [Exec (js ''which wg'') None, HttpGet nodes_url]"
proof -
  let ?d = "directory_host [Some \<lparr>node_id = js ''A'', node_status = js ''active''\<rparr>,
                            Some \<lparr>node_id = js ''B'', node_status = js ''inactive''\<rparr>]"
  have p1: "retrieval_failed (fst (h_fetch_nodes offline_host [] (world (start 0))))"
    by (simp add: offline_host_def static_host_def retrieval_failed_def)
  have p2: "fst (h_fetch_nodes ?d [] (world (start 0))) =
        Json (Some [Some \<lparr>node_id = js ''A'', node_status = js ''active''\<rparr>,
                    Some \<lparr>node_id = js ''B'', node_status = js ''inactive''\<rparr>])
      \<and> None \<notin> set [Some \<lparr>node_id = js ''A'', node_status = js ''active''\<rparr>,
                       Some \<lparr>node_id = js ''B'', node_status = js ''inactive''\<rparr>]"
    by (simp add: directory_host_def static_host_def)
  have p3: "fst (checkWireGuard offline_host (start 0))
      \<and> (retrieval_failed (fst (h_fetch_nodes offline_host []
             (world (snd (checkWireGuard offline_host (start 0))))))
         \<or> fst (h_fetch_nodes offline_host []
             (world (snd (checkWireGuard offline_host (start 0))))) = Json (Some []))"
    by (simp add: offline_host_def checkWireGuard_def static_run which_wg_def
        retrieval_failed_def trim_def is_space_def js_def)
  have p4: "fst (checkWireGuard (directory_host []) (start 0))
      \<and> (retrieval_failed (fst (h_fetch_nodes (directory_host []) []
             (world (snd (checkWireGuard (directory_host []) (start 0))))))
         \<or> fst (h_fetch_nodes (directory_host []) []
             (world (snd (checkWireGuard (directory_host []) (start 0))))) = Json (Some []))"
    by (simp add: directory_host_def checkWireGuard_def static_run which_wg_def trim_def
        is_space_def js_def)
  note t = getAllNodes_total
  from t [THEN conjunct1, rule_format, OF p1]
  have c1: "fst (getAllNodes offline_host [] (start 0)) = []" .
  from t [THEN conjunct2, THEN conjunct1, rule_format, OF p2]
  have c2: "fst (getAllNodes ?d [] (start 0)) = [\<lparr>node_id = js ''A'', node_status = js ''active''\<rparr>]"
    by (simp add: js_def)
  from t [THEN conjunct2, THEN conjunct2, THEN conjunct1, rule_format, OF p3, of "js ''A''"]
  have c3: "fst (connectDvpn offline_host [] (js ''A'') (start 0)) = Resolved False
      \<and> trace (snd (connectDvpn offline_host [] (js ''A'') (start 0))) =
          [Exec (js ''which wg'') None, HttpGet nodes_url]" .
  from t [THEN conjunct2, THEN conjunct2, THEN conjunct1, rule_format, OF p4, of "js ''A''"]
  have c4: "fst (connectDvpn (directory_host []) [] (js ''A'') (start 0)) = Resolved False
      \<and> trace (snd (connectDvpn (directory_host []) [] (js ''A'') (start 0))) =
          [Exec (js ''which wg'') None, HttpGet nodes_url]" .
  have p5: "fst (h_fetch_nodes (directory_host []) []
        (world (snd (checkWireGuard (directory_host []) (start 0))))) = Json (Some [])"
    by (simp add: directory_host_def static_host_def)
  let ?i = "directory_host [Some \<lparr>node_id = js ''A'', node_status = js ''inactive''\<rparr>]"
  have p6: "fst (checkWireGuard ?i (start 0))
      \<and> fst (getAllNodes ?i [] (snd (checkWireGuard ?i (start 0)))) = []"
    by (simp add: directory_host_def checkWireGuard_def getAllNodes_def static_run which_wg_def
        trim_def is_space_def js_def Let_def)
  from t [THEN conjunct2, THEN conjunct2, THEN conjunct2, rule_format, OF p6, of "js ''A''"]
  have c6: "fst (connectDvpn ?i [] (js ''A'') (start 0)) = Resolved False
      \<and> trace (snd (connectDvpn ?i [] (js ''A'') (start 0))) =
          [Exec (js ''which wg'') None, HttpGet nodes_url]" .
  show ?thesis using p1 c1 p2 c2 p3 c3 p4 p5 c4 p6 c6 by simp
qed

section \<open>Node validation\<close>

text \<open>
  Claim C3. The active-node set is what \<^verbatim>\<open>getAllNodes\<close> returns. For every host
  and every \<^verbatim>\<open>nodeId\<close> that is the id of none of its nodes, \<^verbatim>\<open>connectDvpn\<close>
  resolves with \<^verbatim>\<open>false\<close> and its trace has neither the creation of the key
  directory, with which \<^verbatim>\<open>createClient\<close> starts, nor a provisioning request. With
  WireGuard installed and the directory \<^verbatim>\<open>[{id:"A", status:"active"}]\<close>, connecting
  to \<^verbatim>\<open>A\<close> starts provisioning; with \<^verbatim>\<open>[{id:"A", status:"inactive"}]\<close> it
  fails without.
\<close>

theorem connect_unknown_node:
  "(\<forall>h w token nodeId.
      nodeId \<notin> node_id ` set (fst (getAllNodes h token (snd (checkWireGuard h (start w))))) \<longrightarrow>
        fst (connectDvpn h token nodeId (start w)) = Resolved False
        \<and> \<not> provisioning_started (trace (snd (connectDvpn h token nodeId (start w)))))
   \<and> (\<forall>h w token.
        fst (checkWireGuard h (start w))
        \<and> fst (h_fetch_nodes h token (world (snd (checkWireGuard h (start w))))) =
            Json (Some [Some \<lparr>node_id = js ''A'', node_status = js ''active''\<rparr>]) \<longrightarrow>
          provisioning_started (trace (snd (connectDvpn h token (js ''A'') (start w)))))
   \<and> (\<forall>h w token.
        fst (h_fetch_nodes h token (world (snd (checkWireGuard h (start w))))) =
            Json (Some [Some \<lparr>node_id = js ''A'', node_status = js ''inactive''\<rparr>]) \<longrightarrow>
          fst (connectDvpn h token (js ''A'') (start w)) = Resolved False
          \<and> \<not> provisioning_started (trace (snd (connectDvpn h token (js ''A'') (start w)))))"
proof (intro conjI allI impI)
  fix h :: "'a host" and w token nodeId
  assume a: "nodeId \<notin> node_id ` set (fst (getAllNodes h token (snd (checkWireGuard h (start w)))))"
  show "fst (connectDvpn h token nodeId (start w)) = Resolved False"
    using a by (rule connectDvpn_not_member(1))
  show "\<not> provisioning_started (trace (snd (connectDvpn h token nodeId (start w))))"
    unfolding connectDvpn_not_member(2) [OF a]
    by (simp add: getAllNodes_trace checkWireGuard_trace start_def not_started)
next
  fix h :: "'b host" and w token
  assume a: "fst (checkWireGuard h (start w))
        \<and> fst (h_fetch_nodes h token (world (snd (checkWireGuard h (start w))))) =
            Json (Some [Some \<lparr>node_id = js ''A'', node_status = js ''active''\<rparr>])"
  then have "fst (getAllNodes h token (snd (checkWireGuard h (start w)))) =
      [\<lparr>node_id = js ''A'', node_status = js ''active''\<rparr>]"
    by (simp add: getAllNodes_active)
  then show "provisioning_started (trace (snd (connectDvpn h token (js ''A'') (start w))))"
    using a by (intro connectDvpn_member) simp_all
next
  fix h :: "'c host" and w token
  assume a: "fst (h_fetch_nodes h token (world (snd (checkWireGuard h (start w))))) =
            Json (Some [Some \<lparr>node_id = js ''A'', node_status = js ''inactive''\<rparr>])"
  then have n: "fst (getAllNodes h token (snd (checkWireGuard h (start w)))) = []"
    by (simp add: getAllNodes_active js_def)
  then have m: "js ''A'' \<notin> node_id ` set (fst (getAllNodes h token (snd (checkWireGuard h (start w)))))"
    by simp
  show "fst (connectDvpn h token (js ''A'') (start w)) = Resolved False"
    using m by (rule connectDvpn_not_member(1))
  show "\<not> provisioning_started (trace (snd (connectDvpn h token (js ''A'') (start w))))"
    unfolding connectDvpn_not_member(2) [OF m]
    by (simp add: getAllNodes_trace checkWireGuard_trace start_def not_started)
qed

theorem connect_unknown_node_witness:
  "js ''B'' \<notin> node_id ` set (fst (getAllNodes
       (directory_host [Some \<lparr>node_id = js ''A'', node_status = js ''active''\<rparr>]) []
       (snd (checkWireGuard
          (directory_host [Some \<lparr>node_id = js ''A'', node_status = js ''active''\<rparr>])
          (start 0)))))
   \<and> fst (connectDvpn (directory_host [Some \<lparr>node_id = js ''A'', node_status = js ''active''\<rparr>])
        [] (js ''B'') (start 0)) = Resolved False
   \<and> \<not> provisioning_started (trace (snd (connectDvpn
        (directory_host [Some \<lparr>node_id = js ''A'', node_status = js ''active''\<rparr>])
        [] (js ''B'') (start 0))))
   \<and> fst (checkWireGuard
        (directory_host [Some \<lparr>node_id = js ''A'', node_status = js ''active''\<rparr>]) (start 0))
   \<and> provisioning_started (trace (snd (connectDvpn
        (directory_host [Some \<lparr>node_id = js ''A'', node_status = js ''active''\<rparr>])
        [] (js ''A'') (start 0))))
   \<and> fst (connectDvpn (directory_host [Some \<lparr>node_id = js ''A'', node_status = js ''inactive''\<rparr>])
        [] (js ''A'') (start 0)) = Resolved False
   \<and> \<not> provisioning_started (trace (snd (connectDvpn
        (directory_host [Some \<lparr>node_id = js ''A'', node_status = js ''inactive''\<rparr>])
        [] (js ''A'') (start 0))))"
proof -
  let ?a = "directory_host [Some \<lparr>node_id = js ''A'', node_status = js ''active''\<rparr>]"
  let ?i = "directory_host [Some \<lparr>node_id = js ''A'', node_status = js ''inactive''\<rparr>]"
  have p1: "js ''B'' \<notin> node_id ` set (fst (getAllNodes ?a [] (snd (checkWireGuard ?a (start 0)))))"
    by (simp add: getAllNodes_def directory_host_def static_host_def Let_def js_def)
  have p2: "fst (checkWireGuard ?a (start 0))
      \<and> fst (h_fetch_nodes ?a [] (world (snd (checkWireGuard ?a (start 0))))) =
          Json (Some [Some \<lparr>node_id = js ''A'', node_status = js ''active''\<rparr>])"
    by (simp add: directory_host_def checkWireGuard_def static_run which_wg_def trim_def
        is_space_def js_def)
  have p3: "fst (h_fetch_nodes ?i [] (world (snd (checkWireGuard ?i (start 0))))) =
          Json (Some [Some \<lparr>node_id = js ''A'', node_status = js ''inactive''\<rparr>])"
    by (simp add: directory_host_def static_host_def)
  note t = connect_unknown_node
  from t [THEN conjunct1, rule_format, OF p1]
  have c1: "fst (connectDvpn ?a [] (js ''B'') (start 0)) = Resolved False
      \<and> \<not> provisioning_started (trace (snd (connectDvpn ?a [] (js ''B'') (start 0))))" .
  from t [THEN conjunct2, THEN conjunct1, rule_format, OF p2]
  have c2: "provisioning_started (trace (snd (connectDvpn ?a [] (js ''A'') (start 0))))" .
  from t [THEN conjunct2, THEN conjunct2, rule_format, OF p3]
  have c3: "fst (connectDvpn ?i [] (js ''A'') (start 0)) = Resolved False
      \<and> \<not> provisioning_started (trace (snd (connectDvpn ?i [] (js ''A'') (start 0))))" .
  show ?thesis using p1 c1 p2 c2 c3 by simp
qed

section \<open>Bring-up\<close>

lemma command_distinct [simp]:
  "quick_down \<noteq> link_delete" "quick_down \<noteq> wg_quick_up p" "quick_down \<noteq> link_add"
  "quick_down \<noteq> setconf tc" "quick_down \<noteq> addr_add a" "quick_down \<noteq> link_up"
  "quick_down \<noteq> route_add" "quick_down \<noteq> dns_fix" "quick_down \<noteq> ping"
  "link_delete \<noteq> quick_down" "link_delete \<noteq> wg_quick_up p" "link_delete \<noteq> link_add"
  "link_delete \<noteq> setconf tc" "link_delete \<noteq> addr_add a" "link_delete \<noteq> link_up"
  "link_delete \<noteq> route_add" "link_delete \<noteq> dns_fix" "link_delete \<noteq> ping"
  "wg_quick_up p \<noteq> quick_down" "wg_quick_up p \<noteq> link_delete" "wg_quick_up p \<noteq> link_add"
  "wg_quick_up p \<noteq> setconf tc" "wg_quick_up p \<noteq> addr_add a" "wg_quick_up p \<noteq> link_up"
  "wg_quick_up p \<noteq> route_add" "wg_quick_up p \<noteq> dns_fix" "wg_quick_up p \<noteq> ping"
  "link_add \<noteq> quick_down" "link_add \<noteq> link_delete" "link_add \<noteq> wg_quick_up p"
  "link_add \<noteq> setconf tc" "link_add \<noteq> addr_add a" "link_add \<noteq> link_up"
  "link_add \<noteq> route_add" "link_add \<noteq> dns_fix" "link_add \<noteq> ping"
  "setconf tc \<noteq> quick_down" "setconf tc \<noteq> link_delete" "setconf tc \<noteq> wg_quick_up p"
  "setconf tc \<noteq> link_add" "setconf tc \<noteq> addr_add a" "setconf tc \<noteq> link_up"
  "setconf tc \<noteq> route_add" "setconf tc \<noteq> dns_fix" "setconf tc \<noteq> ping"
  "addr_add a \<noteq> quick_down" "addr_add a \<noteq> link_delete" "addr_add a \<noteq> wg_quick_up p"
  "addr_add a \<noteq> link_add" "addr_add a \<noteq> setconf tc" "addr_add a \<noteq> link_up"
  "addr_add a \<noteq> route_add" "addr_add a \<noteq> dns_fix" "addr_add a \<noteq> ping"
  "link_up \<noteq> quick_down" "link_up \<noteq> link_delete" "link_up \<noteq> wg_quick_up p"
  "link_up \<noteq> link_add" "link_up \<noteq> setconf tc" "link_up \<noteq> addr_add a"
  "link_up \<noteq> route_add" "link_up \<noteq> dns_fix" "link_up \<noteq> ping"
  "route_add \<noteq> quick_down" "route_add \<noteq> link_delete" "route_add \<noteq> wg_quick_up p"
  "route_add \<noteq> link_add" "route_add \<noteq> setconf tc" "route_add \<noteq> addr_add a"
  "route_add \<noteq> link_up" "route_add \<noteq> dns_fix" "route_add \<noteq> ping"
  "dns_fix \<noteq> quick_down" "dns_fix \<noteq> link_delete" "dns_fix \<noteq> wg_quick_up p"
  "dns_fix \<noteq> link_add" "dns_fix \<noteq> setconf tc" "dns_fix \<noteq> addr_add a"
  "dns_fix \<noteq> link_up" "dns_fix \<noteq> route_add" "dns_fix \<noteq> ping"
  "ping \<noteq> quick_down" "ping \<noteq> link_delete" "ping \<noteq> wg_quick_up p"
  "ping \<noteq> link_add" "ping \<noteq> setconf tc" "ping \<noteq> addr_add a"
  "ping \<noteq> link_up" "ping \<noteq> route_add" "ping \<noteq> dns_fix"
  by (simp_all add: quick_down_def wg_quick_up_def link_delete_def link_add_def setconf_def
      addr_add_def link_up_def route_add_def dns_fix_def ping_def js_def)

lemma setconf_inj [simp]: "setconf a = setconf b \<longleftrightarrow> a = b"
  by (simp add: setconf_def)

lemma runs_simps [simp]:
  "runs c [] = 0"
  "runs c (Exec c' x # tr) = (if c' = c then Suc (runs c tr) else runs c tr)"
  "runs c (ReadFile p # tr) = runs c tr"
  "runs c (WriteFile p d m # tr) = runs c tr"
  "runs c (Unlink p # tr) = runs c tr"
  "runs c (Timeout n # tr) = runs c tr"
  by (simp_all add: runs_def)

lemma runs_append [simp]: "runs c (xs @ ys) = runs c xs + runs c ys"
  by (simp add: runs_def)

lemma count_list_append_trace [simp]:
  "count_list (xs @ ys) x = count_list xs x + count_list ys x"
  by (induction xs) auto

text \<open>
  The manual sequence either runs all its commands and removes the temporary file, or
  stops at the first command that fails, deletes the interface and removes the file.
\<close>

lemma execCommands_result:
  "(fst (execCommands h tc cs s) = Resolved True
      \<and> trace (snd (execCommands h tc cs s)) = trace s @ map (\<lambda>c. Exec c None) cs @ [Unlink tc])
   \<or> (\<exists>k e r. k < length cs \<and> fst (execCommands h tc cs s) = Rejected e
      \<and> trace (snd (execCommands h tc cs s)) =
          trace s @ map (\<lambda>c. Exec c None) (take k cs)
            @ [Exec (cs ! k) (Some e), Exec link_delete r, Unlink tc])"
proof (induction cs arbitrary: s)
  case Nil
  show ?case by (simp add: unlink_def split: prod.splits)
next
  case (Cons c cs)
  obtain x out err s1 where e: "exec h c s = ((x, out, err), s1)" "trace s1 = trace s @ [Exec c x]"
    by (rule exec_cases)
  show ?case
  proof (cases x)
    case (Some er)
    obtain y out' err' s2 where d: "exec h link_delete s1 = ((y, out', err'), s2)"
      "trace s2 = trace s1 @ [Exec link_delete y]"
      by (rule exec_cases)
    have "fst (execCommands h tc (c # cs) s) = Rejected er"
      using e Some d by (simp split: prod.splits)
    moreover have "trace (snd (execCommands h tc (c # cs) s)) =
        trace s @ map (\<lambda>c. Exec c None) (take 0 (c # cs))
          @ [Exec ((c # cs) ! 0) (Some er), Exec link_delete y, Unlink tc]"
      using e Some d by (simp add: unlink_def split: prod.splits)
    ultimately show ?thesis by blast
  next
    case None
    then have step: "execCommands h tc (c # cs) s = execCommands h tc cs s1"
      using e by simp
    from Cons.IH [of s1] show ?thesis
    proof (elim disjE conjE exE)
      assume "fst (execCommands h tc cs s1) = Resolved True"
        "trace (snd (execCommands h tc cs s1)) =
           trace s1 @ map (\<lambda>c. Exec c None) cs @ [Unlink tc]"
      then show ?thesis using step e None by simp
    next
      fix k er r
      assume a: "k < length cs" "fst (execCommands h tc cs s1) = Rejected er"
        "trace (snd (execCommands h tc cs s1)) =
          trace s1 @ map (\<lambda>c. Exec c None) (take k cs)
            @ [Exec (cs ! k) (Some er), Exec link_delete r, Unlink tc]"
      have "Suc k < length (c # cs)" using a(1) by simp
      moreover have "fst (execCommands h tc (c # cs) s) = Rejected er" using step a(2) by simp
      moreover have "trace (snd (execCommands h tc (c # cs) s)) =
          trace s @ map (\<lambda>c. Exec c None) (take (Suc k) (c # cs))
            @ [Exec ((c # cs) ! Suc k) (Some er), Exec link_delete r, Unlink tc]"
        using step a(3) e None by simp
      ultimately show ?thesis by blast
    qed
  qed
qed

lemma less_5_cases: "k < 5 \<Longrightarrow> k = 0 \<or> k = 1 \<or> k = 2 \<or> k = 3 \<or> k = (4::nat)"
  by arith

lemma manual_sequence_result:
  "(fst (execCommands h tc (commands tc a) s) = Resolved True
      \<and> trace (snd (execCommands h tc (commands tc a) s)) =
          trace s @ [Exec link_add None, Exec (setconf tc) None, Exec (addr_add a) None,
                     Exec link_up None, Exec route_add None, Unlink tc])
   \<or> (\<exists>e r. fst (execCommands h tc (commands tc a) s) = Rejected e
      \<and> trace (snd (execCommands h tc (commands tc a) s)) \<in>
          {trace s @ [Exec link_add (Some e), Exec link_delete r, Unlink tc],
           trace s @ [Exec link_add None, Exec (setconf tc) (Some e), Exec link_delete r,
                      Unlink tc],
           trace s @ [Exec link_add None, Exec (setconf tc) None, Exec (addr_add a) (Some e),
                      Exec link_delete r, Unlink tc],
           trace s @ [Exec link_add None, Exec (setconf tc) None, Exec (addr_add a) None,
                      Exec link_up (Some e), Exec link_delete r, Unlink tc],
           trace s @ [Exec link_add None, Exec (setconf tc) None, Exec (addr_add a) None,
                      Exec link_up None, Exec route_add (Some e), Exec link_delete r,
                      Unlink tc]})"
  using execCommands_result [of h tc "commands tc a" s]
proof (elim disjE conjE exE)
  assume "fst (execCommands h tc (commands tc a) s) = Resolved True"
    "trace (snd (execCommands h tc (commands tc a) s)) =
       trace s @ map (\<lambda>c. Exec c None) (commands tc a) @ [Unlink tc]"
  then show ?thesis by (simp add: commands_def)
next
  fix k e r
  assume k: "k < length (commands tc a)"
    and r: "fst (execCommands h tc (commands tc a) s) = Rejected e"
    and t: "trace (snd (execCommands h tc (commands tc a) s)) =
       trace s @ map (\<lambda>c. Exec c None) (take k (commands tc a))
         @ [Exec (commands tc a ! k) (Some e), Exec link_delete r, Unlink tc]"
  from k have "k = 0 \<or> k = 1 \<or> k = 2 \<or> k = 3 \<or> k = 4"
    by (intro less_5_cases) (simp add: commands_def)
  then have "trace (snd (execCommands h tc (commands tc a) s)) \<in>
          {trace s @ [Exec link_add (Some e), Exec link_delete r, Unlink tc],
           trace s @ [Exec link_add None, Exec (setconf tc) (Some e), Exec link_delete r,
                      Unlink tc],
           trace s @ [Exec link_add None, Exec (setconf tc) None, Exec (addr_add a) (Some e),
                      Exec link_delete r, Unlink tc],
           trace s @ [Exec link_add None, Exec (setconf tc) None, Exec (addr_add a) None,
                      Exec link_up (Some e), Exec link_delete r, Unlink tc],
           trace s @ [Exec link_add None, Exec (setconf tc) None, Exec (addr_add a) None,
                      Exec link_up None, Exec route_add (Some e), Exec link_delete r,
                      Unlink tc]}"
    unfolding t by (elim disjE) (simp_all add: commands_def eval_nat_numeral)
  then show ?thesis using r by blast
qed

text \<open>
  The five ways in which \<^verbatim>\<open>connectToWireGuard\<close> can go before the manual
  sequence, each with what its steps gave.
\<close>

lemma connectToWireGuard_cases:
  obtains
    (primary) d1 d2 r3 r4 where
      "primary_error h p s = None"
      "fst (connectToWireGuard h p s) = Resolved True"
      "trace (snd (connectToWireGuard h p s)) =
         trace s @ [Exec quick_down d1, Exec link_delete d2, Exec (wg_quick_up p) None,
                    Exec dns_fix r3, Timeout 2000, Exec ping r4]"
  | (unreadable) d1 d2 e0 readErr where
      "primary_error h p s = Some e0" "config_read h p s = Inl readErr"
      "temp_write h p s = None"
      "fst (connectToWireGuard h p s) = Rejected readErr"
      "trace (snd (connectToWireGuard h p s)) =
         trace s @ [Exec quick_down d1, Exec link_delete d2, Exec (wg_quick_up p) (Some e0),
                    ReadFile p]"
  | (unparsed) d1 d2 e0 data where
      "primary_error h p s = Some e0" "config_read h p s = Inr data" "parseConfig data = None"
      "temp_write h p s = None"
      "fst (connectToWireGuard h p s) = Uncaught TypeError"
      "trace (snd (connectToWireGuard h p s)) =
         trace s @ [Exec quick_down d1, Exec link_delete d2, Exec (wg_quick_up p) (Some e0),
                    ReadFile p]"
  | (unwritable) d1 d2 e0 data tc c writeErr where
      "primary_error h p s = Some e0" "config_read h p s = Inr data" "parseConfig data = Some c"
      "temp_write h p s = Some (Some writeErr)"
      "fst (connectToWireGuard h p s) = Rejected writeErr"
      "trace (snd (connectToWireGuard h p s)) =
         trace s @ [Exec quick_down d1, Exec link_delete d2, Exec (wg_quick_up p) (Some e0),
                    ReadFile p, WriteFile tc (wgConf c) 384]"
  | (manual) d1 d2 e0 data tc c s5 where
      "primary_error h p s = Some e0" "config_read h p s = Inr data" "parseConfig data = Some c"
      "temp_write h p s = Some None"
      "connectToWireGuard h p s = execCommands h tc (commands tc (pc_address c)) s5"
      "trace s5 =
         trace s @ [Exec quick_down d1, Exec link_delete d2, Exec (wg_quick_up p) (Some e0),
                    ReadFile p, WriteFile tc (wgConf c) 384]"
proof -
  note defs = connectToWireGuard_def cleanupWireGuard_def Let_def
  obtain d1 o1 e1 s1 where a1: "exec h quick_down s = ((d1, o1, e1), s1)"
    "trace s1 = trace s @ [Exec quick_down d1]"
    by (rule exec_cases)
  obtain d2 o2 e2 s2 where a2: "exec h link_delete s1 = ((d2, o2, e2), s2)"
    "trace s2 = trace s1 @ [Exec link_delete d2]"
    by (rule exec_cases)
  obtain x o3 e3 s3 where a3: "exec h (wg_quick_up p) s2 = ((x, o3, e3), s3)"
    "trace s3 = trace s2 @ [Exec (wg_quick_up p) x]"
    by (rule exec_cases)
  have cl: "cleanupWireGuard h s = ((), s2)"
    using a1 a2 by (simp add: cleanupWireGuard_def)
  have pe: "primary_error h p s = x"
    using cl a3 by (simp add: primary_error_def)
  have t3: "trace s3 = trace s @ [Exec quick_down d1, Exec link_delete d2, Exec (wg_quick_up p) x]"
    using a1 a2 a3 by simp
  show ?thesis
  proof (cases x)
    case None
    obtain r3 o4 e4 s4 where a4: "exec h dns_fix s3 = ((r3, o4, e4), s4)"
      "trace s4 = trace s3 @ [Exec dns_fix r3]"
      by (rule exec_cases)
    obtain r4 o5 e5 s5 where a5: "exec h ping (setTimeout 2000 s4) = ((r4, o5, e5), s5)"
      "trace s5 = trace (setTimeout 2000 s4) @ [Exec ping r4]"
      by (rule exec_cases)
    have "connectToWireGuard h p s = (Resolved True, s5)"
      using a1 a2 a3 None a4 a5 by (simp add: defs)
    moreover have "trace s5 =
        trace s @ [Exec quick_down d1, Exec link_delete d2, Exec (wg_quick_up p) None,
                   Exec dns_fix r3, Timeout 2000, Exec ping r4]"
      using t3 None a4 a5 by (simp add: setTimeout_def)
    ultimately show ?thesis using primary pe None by simp
  next
    case (Some e0)
    obtain rd s4 where a4: "readFile h p s3 = (rd, s4)" by (cases "readFile h p s3")
    have cr: "config_read h p s = rd"
      using cl a3 a4 by (simp add: config_read_def)
    have t4: "trace s4 =
        trace s @ [Exec quick_down d1, Exec link_delete d2, Exec (wg_quick_up p) (Some e0),
                   ReadFile p]"
      using readFile_trace [of h p s3] a4 t3 Some by simp
    note unf = a1 a2 a3 Some a4
    show ?thesis
    proof (cases rd)
      case (Inl readErr)
      then have "connectToWireGuard h p s = (Rejected readErr, s4)"
        using unf by (simp add: defs)
      moreover have "temp_write h p s = None"
        using cl a3 a4 Inl by (simp add: temp_write_def)
      ultimately show ?thesis
        using t4 pe Some cr Inl unreadable [of e0 readErr d1 d2] by simp
    next
      case (Inr data)
      show ?thesis
      proof (cases "parseConfig data")
        case None
        then have "connectToWireGuard h p s = (Uncaught TypeError, s4)"
          using unf Inr by (simp add: defs)
        moreover have "temp_write h p s = None"
          using cl a3 a4 Inr None by (simp add: temp_write_def)
        ultimately show ?thesis
          using t4 pe \<open>x = Some e0\<close> cr Inr None unparsed [of e0 data d1 d2] by simp
      next
        case (Some c)
        obtain t s5 where a5: "now h s4 = (t, s5)" by (cases "now h s4")
        then have t5: "trace s5 = trace s4" using now_trace [of h s4] by simp
        define tc where "tc = js ''/tmp/wg-temp-'' @ decimal t @ js ''.conf''"
        obtain wr s6 where a6: "writeFile h tc (wgConf c) 384 s5 = (wr, s6)"
          by (cases "writeFile h tc (wgConf c) 384 s5")
        have tw: "temp_write h p s = Some wr"
          using cl a3 a4 Inr Some a5 a6 by (simp add: temp_write_def tc_def)
        have t6: "trace s6 =
            trace s @ [Exec quick_down d1, Exec link_delete d2, Exec (wg_quick_up p) (Some e0),
                       ReadFile p, WriteFile tc (wgConf c) 384]"
          using writeFile_trace [of h tc "wgConf c" 384 s5] a6 t5 t4 by simp
        show ?thesis
        proof (cases wr)
          case None
          have "connectToWireGuard h p s = execCommands h tc (commands tc (pc_address c)) s6"
            using unf Inr \<open>parseConfig data = Some c\<close> a5 a6 None by (simp add: tc_def defs)
          then show ?thesis
            using t6 pe \<open>x = Some e0\<close> cr Inr \<open>parseConfig data = Some c\<close> tw None
              manual [of e0 data c tc s6 d1 d2]
            by simp
        next
          case (Some writeErr)
          have "connectToWireGuard h p s = (Rejected writeErr, s6)"
            using unf Inr \<open>parseConfig data = Some c\<close> a5 a6 Some by (simp add: tc_def defs)
          then show ?thesis
            using t6 pe \<open>x = Some e0\<close> cr Inr \<open>parseConfig data = Some c\<close> tw Some
              unwritable [of e0 data c writeErr d1 d2 tc]
            by simp
        qed
      qed
    qed
  qed
qed

text \<open>
  Claim C2. In every run of \<^verbatim>\<open>connectToWireGuard\<close> in which
  \<^verbatim>\<open>wg-quick up\<close> fails, the fallback is entered exactly once (the configuration
  file is read exactly once) and no command but the deletion of the interface is
  executed more than once; the manual sequence is started exactly once as soon as the
  configuration has been read and parsed and the temporary file written, and not
  started otherwise; and when the promise resolves, the five commands have run exactly
  once each, in their order, before the temporary file is removed. In every run in
  which \<^verbatim>\<open>wg setconf\<close> fails, the promise is rejected with that error, the
  trace ends with the failed command, the deletion of the interface and the removal of
  the temporary file, and the address, link and default-route commands are never
  executed.
\<close>

theorem fallback_once_and_rollback:
  "(Exec (wg_quick_up configPath) (Some e)
        \<in> set (trace (snd (connectToWireGuard h configPath (start w)))) \<longrightarrow>
      count_list (trace (snd (connectToWireGuard h configPath (start w)))) (ReadFile configPath) = 1
      \<and> (\<forall>c. c \<noteq> link_delete \<longrightarrow>
            runs c (trace (snd (connectToWireGuard h configPath (start w)))) \<le> 1)
      \<and> runs link_add (trace (snd (connectToWireGuard h configPath (start w)))) =
          (if temp_write h configPath (start w) = Some None then 1 else 0)
      \<and> (fst (connectToWireGuard h configPath (start w)) = Resolved True \<longrightarrow>
          (\<exists>before tc a.
             trace (snd (connectToWireGuard h configPath (start w))) =
               before @ [Exec link_add None, Exec (setconf tc) None, Exec (addr_add a) None,
                         Exec link_up None, Exec route_add None, Unlink tc]
             \<and> runs link_add (trace (snd (connectToWireGuard h configPath (start w)))) = 1
             \<and> runs (setconf tc) (trace (snd (connectToWireGuard h configPath (start w)))) = 1
             \<and> runs (addr_add a) (trace (snd (connectToWireGuard h configPath (start w)))) = 1
             \<and> runs link_up (trace (snd (connectToWireGuard h configPath (start w)))) = 1
             \<and> runs route_add (trace (snd (connectToWireGuard h configPath (start w)))) = 1)))
   \<and> (Exec (setconf tempConf) (Some e')
        \<in> set (trace (snd (connectToWireGuard h configPath (start w)))) \<longrightarrow>
      fst (connectToWireGuard h configPath (start w)) = Rejected e'
      \<and> (\<exists>before r. trace (snd (connectToWireGuard h configPath (start w))) =
            before @ [Exec (setconf tempConf) (Some e'), Exec link_delete r, Unlink tempConf])
      \<and> runs (addr_add address) (trace (snd (connectToWireGuard h configPath (start w)))) = 0
      \<and> runs link_up (trace (snd (connectToWireGuard h configPath (start w)))) = 0
      \<and> runs route_add (trace (snd (connectToWireGuard h configPath (start w)))) = 0)"
proof (cases rule: connectToWireGuard_cases [of h configPath "start w"])
  case (primary d1 d2 r3 r4)
  show ?thesis unfolding primary by (simp add: start_def)
next
  case (unreadable d1 d2 e0 readErr)
  show ?thesis unfolding unreadable by (auto simp: start_def)
next
  case (unparsed d1 d2 e0 data)
  show ?thesis unfolding unparsed by (auto simp: start_def)
next
  case (unwritable d1 d2 e0 data tc c writeErr)
  show ?thesis unfolding unwritable by (auto simp: start_def)
next
  case (manual d1 d2 e0 data tc c s5)
  note m = manual(4) manual(5) manual(6)
  from manual_sequence_result [of h tc "pc_address c" s5]
  show ?thesis
  proof (elim disjE conjE exE)
    assume a: "fst (execCommands h tc (commands tc (pc_address c)) s5) = Resolved True"
      "trace (snd (execCommands h tc (commands tc (pc_address c)) s5)) =
         trace s5 @ [Exec link_add None, Exec (setconf tc) None,
                     Exec (addr_add (pc_address c)) None, Exec link_up None,
                     Exec route_add None, Unlink tc]"
    have ex: "\<exists>before tc' a.
        trace s5 @ [Exec link_add None, Exec (setconf tc) None,
                     Exec (addr_add (pc_address c)) None, Exec link_up None,
                     Exec route_add None, Unlink tc] =
          before @ [Exec link_add None, Exec (setconf tc') None, Exec (addr_add a) None,
                    Exec link_up None, Exec route_add None, Unlink tc']
        \<and> runs link_add (trace s5 @ [Exec link_add None, Exec (setconf tc) None,
                     Exec (addr_add (pc_address c)) None, Exec link_up None,
                     Exec route_add None, Unlink tc]) = 1
        \<and> runs (setconf tc') (trace s5 @ [Exec link_add None, Exec (setconf tc) None,
                     Exec (addr_add (pc_address c)) None, Exec link_up None,
                     Exec route_add None, Unlink tc]) = 1
        \<and> runs (addr_add a) (trace s5 @ [Exec link_add None, Exec (setconf tc) None,
                     Exec (addr_add (pc_address c)) None, Exec link_up None,
                     Exec route_add None, Unlink tc]) = 1
        \<and> runs link_up (trace s5 @ [Exec link_add None, Exec (setconf tc) None,
                     Exec (addr_add (pc_address c)) None, Exec link_up None,
                     Exec route_add None, Unlink tc]) = 1
        \<and> runs route_add (trace s5 @ [Exec link_add None, Exec (setconf tc) None,
                     Exec (addr_add (pc_address c)) None, Exec link_up None,
                     Exec route_add None, Unlink tc]) = 1"
      unfolding manual(6)
      by (intro exI [of _ "[Exec quick_down d1, Exec link_delete d2,
              Exec (wg_quick_up configPath) (Some e0), ReadFile configPath,
              WriteFile tc (wgConf c) 384]"] exI [of _ tc] exI [of _ "pc_address c"])
         (simp add: start_def)
    show ?thesis unfolding m a using ex unfolding manual(6) by (auto simp: start_def)
  next
    fix er r
    assume a: "fst (execCommands h tc (commands tc (pc_address c)) s5) = Rejected er"
      and b: "trace (snd (execCommands h tc (commands tc (pc_address c)) s5)) \<in>
          {trace s5 @ [Exec link_add (Some er), Exec link_delete r, Unlink tc],
           trace s5 @ [Exec link_add None, Exec (setconf tc) (Some er), Exec link_delete r,
                       Unlink tc],
           trace s5 @ [Exec link_add None, Exec (setconf tc) None,
                       Exec (addr_add (pc_address c)) (Some er), Exec link_delete r, Unlink tc],
           trace s5 @ [Exec link_add None, Exec (setconf tc) None,
                       Exec (addr_add (pc_address c)) None, Exec link_up (Some er),
                       Exec link_delete r, Unlink tc],
           trace s5 @ [Exec link_add None, Exec (setconf tc) None,
                       Exec (addr_add (pc_address c)) None, Exec link_up None,
                       Exec route_add (Some er), Exec link_delete r, Unlink tc]}"
    from b consider
        "trace (snd (execCommands h tc (commands tc (pc_address c)) s5)) =
           trace s5 @ [Exec link_add (Some er), Exec link_delete r, Unlink tc]"
      | "trace (snd (execCommands h tc (commands tc (pc_address c)) s5)) =
           trace s5 @ [Exec link_add None, Exec (setconf tc) (Some er), Exec link_delete r,
                       Unlink tc]"
      | "trace (snd (execCommands h tc (commands tc (pc_address c)) s5)) =
           trace s5 @ [Exec link_add None, Exec (setconf tc) None,
                       Exec (addr_add (pc_address c)) (Some er), Exec link_delete r, Unlink tc]"
      | "trace (snd (execCommands h tc (commands tc (pc_address c)) s5)) =
           trace s5 @ [Exec link_add None, Exec (setconf tc) None,
                       Exec (addr_add (pc_address c)) None, Exec link_up (Some er),
                       Exec link_delete r, Unlink tc]"
      | "trace (snd (execCommands h tc (commands tc (pc_address c)) s5)) =
           trace s5 @ [Exec link_add None, Exec (setconf tc) None,
                       Exec (addr_add (pc_address c)) None, Exec link_up None,
                       Exec route_add (Some er), Exec link_delete r, Unlink tc]"
      by blast
    then show ?thesis
    proof cases
      case 1
      show ?thesis unfolding m 1 a by (auto simp: start_def)
    next
      case 2
      show ?thesis unfolding m 2 a by (auto simp: start_def)
    next
      case 3
      show ?thesis unfolding m 3 a by (auto simp: start_def)
    next
      case 4
      show ?thesis unfolding m 4 a by (auto simp: start_def)
    next
      case 5
      show ?thesis unfolding m 5 a by (auto simp: start_def)
    qed
  qed
qed

lemma parse_example:
  "parseConfig example_config =
     Some \<lparr>pc_privateKey = js ''cHJpdg='', pc_address = js ''10.0.0.2/32'',
           pc_publicKey = js ''c2VydmVy='', pc_presharedKey = js ''cHNr='',
           pc_endpoint = js ''vpn.example.org:51820''\<rparr>"
proof -
  have "parseConfig example_config =
     Some \<lparr>pc_privateKey = js ''cHJpdg='', pc_address = js ''10.0.0.2/32'',
           pc_publicKey = js ''c2VydmVy='', pc_presharedKey = js ''cHNr='',
           pc_endpoint = js ''vpn.example.org'' @ js '':51820''\<rparr>"
    unfolding example_config_def
    by (rule parseConfig_configContent)
       (simp_all add: field_value_def ws_free_def shadows_def assigns_def js_def is_space_def)
  then show ?thesis by (simp add: js_def)
qed

lemma example_tempConf_eq: "js ''/tmp/wg-temp-'' @ decimal 0 @ js ''.conf'' = example_tempConf"
  by (simp add: example_tempConf_def decimal.simps js_def)

lemma rollback_run:
  "connectToWireGuard (fallback_host setconf_fails) configPath_default (start 0) =
     (Rejected (Error (js ''Command failed'')),
      \<lparr>world = 0,
       trace = [Exec quick_down None, Exec link_delete None,
                Exec (wg_quick_up configPath_default) (Some (Error (js ''Command failed''))),
                ReadFile configPath_default,
                WriteFile example_tempConf
                  (wgConf \<lparr>pc_privateKey = js ''cHJpdg='', pc_address = js ''10.0.0.2/32'',
                     pc_publicKey = js ''c2VydmVy='', pc_presharedKey = js ''cHNr='',
                     pc_endpoint = js ''vpn.example.org:51820''\<rparr>) 384,
                Exec link_add None,
                Exec (setconf example_tempConf) (Some (Error (js ''Command failed''))),
                Exec link_delete None, Unlink example_tempConf]\<rparr>)"
  by (simp add: connectToWireGuard_def cleanupWireGuard_def fallback_host_def static_run
      setconf_fails_def exec_ok_def exec_failed_def parse_example example_tempConf_eq commands_def)

lemma fallback_run:
  "connectToWireGuard (fallback_host primary_fails) configPath_default (start 0) =
     (Resolved True,
      \<lparr>world = 0,
       trace = [Exec quick_down None, Exec link_delete None,
                Exec (wg_quick_up configPath_default) (Some (Error (js ''Command failed''))),
                ReadFile configPath_default,
                WriteFile example_tempConf
                  (wgConf \<lparr>pc_privateKey = js ''cHJpdg='', pc_address = js ''10.0.0.2/32'',
                     pc_publicKey = js ''c2VydmVy='', pc_presharedKey = js ''cHNr='',
                     pc_endpoint = js ''vpn.example.org:51820''\<rparr>) 384,
                Exec link_add None, Exec (setconf example_tempConf) None,
                Exec (addr_add (js ''10.0.0.2/32'')) None, Exec link_up None,
                Exec route_add None, Unlink example_tempConf]\<rparr>)"
  by (simp add: connectToWireGuard_def cleanupWireGuard_def fallback_host_def static_run
      primary_fails_def exec_ok_def exec_failed_def parse_example example_tempConf_eq commands_def)

lemma fallback_temp_write:
  "temp_write (fallback_host ex) configPath_default (start 0) = Some None"
  by (simp add: temp_write_def cleanupWireGuard_def fallback_host_def static_run parse_example)

theorem fallback_once_and_rollback_witness:
  "Exec (wg_quick_up configPath_default) (Some (Error (js ''Command failed'')))
     \<in> set (trace (snd (connectToWireGuard (fallback_host setconf_fails) configPath_default
          (start 0))))
   \<and> count_list (trace (snd (connectToWireGuard (fallback_host setconf_fails)
          configPath_default (start 0)))) (ReadFile configPath_default) = 1
   \<and> temp_write (fallback_host setconf_fails) configPath_default (start 0) = Some None
   \<and> runs link_add (trace (snd (connectToWireGuard (fallback_host setconf_fails)
          configPath_default (start 0)))) = 1
   \<and> Exec (setconf example_tempConf) (Some (Error (js ''Command failed'')))
     \<in> set (trace (snd (connectToWireGuard (fallback_host setconf_fails) configPath_default
          (start 0))))
   \<and> fst (connectToWireGuard (fallback_host setconf_fails) configPath_default (start 0)) =
        Rejected (Error (js ''Command failed''))
   \<and> runs (addr_add (js ''10.0.0.2/32'')) (trace (snd (connectToWireGuard
          (fallback_host setconf_fails) configPath_default (start 0)))) = 0
   \<and> runs link_up (trace (snd (connectToWireGuard (fallback_host setconf_fails)
          configPath_default (start 0)))) = 0
   \<and> runs route_add (trace (snd (connectToWireGuard (fallback_host setconf_fails)
          configPath_default (start 0)))) = 0
   \<and> Exec (wg_quick_up configPath_default) (Some (Error (js ''Command failed'')))
     \<in> set (trace (snd (connectToWireGuard (fallback_host primary_fails) configPath_default
          (start 0))))
   \<and> fst (connectToWireGuard (fallback_host primary_fails) configPath_default (start 0)) =
        Resolved True
   \<and> count_list (trace (snd (connectToWireGuard (fallback_host primary_fails)
          configPath_default (start 0)))) (ReadFile configPath_default) = 1
   \<and> (\<exists>before tc a.
         trace (snd (connectToWireGuard (fallback_host primary_fails) configPath_default
            (start 0))) =
           before @ [Exec link_add None, Exec (setconf tc) None, Exec (addr_add a) None,
                     Exec link_up None, Exec route_add None, Unlink tc]
         \<and> runs link_add (trace (snd (connectToWireGuard (fallback_host primary_fails)
              configPath_default (start 0)))) = 1
         \<and> runs (setconf tc) (trace (snd (connectToWireGuard (fallback_host primary_fails)
              configPath_default (start 0)))) = 1
         \<and> runs (addr_add a) (trace (snd (connectToWireGuard (fallback_host primary_fails)
              configPath_default (start 0)))) = 1
         \<and> runs link_up (trace (snd (connectToWireGuard (fallback_host primary_fails)
              configPath_default (start 0)))) = 1
         \<and> runs route_add (trace (snd (connectToWireGuard (fallback_host primary_fails)
              configPath_default (start 0)))) = 1)"
proof -
  let ?tr = "trace (snd (connectToWireGuard (fallback_host setconf_fails) configPath_default
     (start 0)))"
  let ?tr' = "trace (snd (connectToWireGuard (fallback_host primary_fails) configPath_default
     (start 0)))"
  have p1: "Exec (wg_quick_up configPath_default) (Some (Error (js ''Command failed''))) \<in> set ?tr"
    by (simp add: rollback_run)
  have p2: "Exec (setconf example_tempConf) (Some (Error (js ''Command failed''))) \<in> set ?tr"
    by (simp add: rollback_run)
  have p3: "Exec (wg_quick_up configPath_default) (Some (Error (js ''Command failed''))) \<in> set ?tr'"
    by (simp add: fallback_run)
  have p4: "fst (connectToWireGuard (fallback_host primary_fails) configPath_default (start 0)) =
      Resolved True"
    by (simp add: fallback_run)
  note t = fallback_once_and_rollback [of configPath_default "Error (js ''Command failed'')"
      "fallback_host setconf_fails" 0 example_tempConf "Error (js ''Command failed'')"
      "js ''10.0.0.2/32''"]
  note t' = fallback_once_and_rollback [of configPath_default "Error (js ''Command failed'')"
      "fallback_host primary_fails" 0 example_tempConf "Error (js ''Command failed'')"
      "js ''10.0.0.2/32''"]
  note f1 = t [THEN conjunct1, rule_format, OF p1]
  note c1 = f1 [THEN conjunct1]
  have c1': "runs link_add ?tr = 1"
    using f1 [THEN conjunct2, THEN conjunct2, THEN conjunct1]
    by (simp add: fallback_temp_write)
  note f2 = t [THEN conjunct2, rule_format, OF p2]
  note c2 = f2 [THEN conjunct1]
  note c3 = f2 [THEN conjunct2, THEN conjunct2, THEN conjunct1]
  note c4 = f2 [THEN conjunct2, THEN conjunct2, THEN conjunct2, THEN conjunct1]
  note c5 = f2 [THEN conjunct2, THEN conjunct2, THEN conjunct2, THEN conjunct2]
  note f3 = t' [THEN conjunct1, rule_format, OF p3]
  note c6 = f3 [THEN conjunct1]
  note c7 = f3 [THEN conjunct2, THEN conjunct2, THEN conjunct2, rule_format, OF p4]
  show ?thesis
    by (intro conjI) (rule p1 c1 fallback_temp_write c1' p2 c2 c3 c4 c5 p3 p4 c6 c7)+
qed

section \<open>The boundary of bring-up\<close>


lemma events_since_append [simp]: "trace s' = trace s @ es \<Longrightarrow> events_since s s' = es"
  by (simp add: events_since_def)













text \<open>
  The unsettled run, on its own: when \<^verbatim>\<open>wg-quick up\<close> fails and the file read
  back holds none of the fields, \<^verbatim>\<open>match\<close> returns \<^verbatim>\<open>null\<close>, indexing it
  throws inside the callback of \<^verbatim>\<open>readFile\<close>, and the promise is neither resolved
  nor rejected.
\<close>

lemma unparsed_config_is_uncaught:
  "connectToWireGuard
     (static_host primary_fails (\<lambda>p. Inr []) (Json None) (RawText []) None)
     configPath_default (start 0) =
   (Uncaught TypeError,
    \<lparr>world = 0,
     trace = [Exec quick_down None, Exec link_delete None,
              Exec (wg_quick_up configPath_default) (Some (Error (js ''Command failed''))),
              ReadFile configPath_default]\<rparr>)"
  by (simp add: connectToWireGuard_def cleanupWireGuard_def static_run primary_fails_def
      exec_ok_def exec_failed_def parseConfig_def match_here_def js_def)

section \<open>After the interface is up\<close>

lemma primary_run:
  "connectToWireGuard (fallback_host (\<lambda>c. exec_ok)) configPath_default (start 0) =
     (Resolved True,
      \<lparr>world = 0,
       trace = [Exec quick_down None, Exec link_delete None,
                Exec (wg_quick_up configPath_default) None,
                Exec dns_fix None, Timeout 2000, Exec ping None]\<rparr>)"
  by (simp add: connectToWireGuard_def cleanupWireGuard_def fallback_host_def static_run
      exec_ok_def)

text \<open>
  Claim C9 against the code. On a host where \<^verbatim>\<open>wg-quick up\<close> fails and every
  manual step succeeds, \<^verbatim>\<open>connectToWireGuard\<close> resolves with \<^verbatim>\<open>true\<close> after
  the default route and the removal of the temporary file: neither the DNS correction
  nor the ping is executed. On the primary path, on the same machine, both are.
\<close>

theorem fallback_skips_dns_and_probe:
  "fst (connectToWireGuard (fallback_host primary_fails) configPath_default (start 0)) =
     Resolved True
   \<and> runs route_add (trace (snd (connectToWireGuard (fallback_host primary_fails)
        configPath_default (start 0)))) = 1
   \<and> last (trace (snd (connectToWireGuard (fallback_host primary_fails)
        configPath_default (start 0)))) = Unlink example_tempConf
   \<and> runs dns_fix (trace (snd (connectToWireGuard (fallback_host primary_fails)
        configPath_default (start 0)))) = 0
   \<and> runs ping (trace (snd (connectToWireGuard (fallback_host primary_fails)
        configPath_default (start 0)))) = 0
   \<and> runs dns_fix (trace (snd (connectToWireGuard (fallback_host (\<lambda>c. exec_ok))
        configPath_default (start 0)))) = 1
   \<and> runs ping (trace (snd (connectToWireGuard (fallback_host (\<lambda>c. exec_ok))
        configPath_default (start 0)))) = 1"
  by (simp add: fallback_run primary_run)

section \<open>Key generation\<close>

text \<open>
  Claim C7 against the code. On a host where every command fails,
  \<^verbatim>\<open>generateWireGuardKeyPair\<close> creates its directory, fails at
  \<^verbatim>\<open>wg genkey\<close> and returns \<^verbatim>\<open>null\<close> without removing the directory, and
  \<^verbatim>\<open>generatePresharedKey\<close> returns \<^verbatim>\<open>null\<close> without removing the file its
  redirection names. On a host where the key files cannot be read, both return
  \<^verbatim>\<open>null\<close> after the failed read, with no removal either.
\<close>

theorem key_generation_leaves_files:
  "generateWireGuardKeyPair no_command_host (start 0) =
     (None, \<lparr>world = 0,
             trace = [Mkdir (js ''/tmp/wg-keys-0''),
                      Exec (js ''wg genkey > /tmp/wg-keys-0/private.key'')
                        (Some (Error (js ''Command failed'')))]\<rparr>)
   \<and> generatePresharedKey no_command_host (start 0) =
     (None, \<lparr>world = 0,
             trace = [Exec (js ''wg genpsk > /tmp/wg-psk-0'')
                        (Some (Error (js ''Command failed'')))]\<rparr>)
   \<and> generateWireGuardKeyPair no_file_host (start 0) =
     (None, \<lparr>world = 0,
             trace = [Mkdir (js ''/tmp/wg-keys-0''),
                      Exec (js ''wg genkey > /tmp/wg-keys-0/private.key'') None,
                      Exec (js ''cat /tmp/wg-keys-0/private.key | wg pubkey > /tmp/wg-keys-0/public.key'')
                        None,
                      ReadFile (js ''/tmp/wg-keys-0/private.key'')]\<rparr>)
   \<and> generatePresharedKey no_file_host (start 0) =
     (None, \<lparr>world = 0,
             trace = [Exec (js ''wg genpsk > /tmp/wg-psk-0'') None,
                      ReadFile (js ''/tmp/wg-psk-0'')]\<rparr>)"
  by (simp add: generateWireGuardKeyPair_def generatePresharedKey_def no_command_host_def
      no_file_host_def static_run exec_failed_def exec_ok_def decimal.simps js_def Let_def)

text \<open>
  Claim C8 against the code. On a host where the two key files hold only a line feed,
  \<^verbatim>\<open>generateWireGuardKeyPair\<close> returns a key pair of two empty strings,
  \<^verbatim>\<open>createClient\<close> sends the provisioning request with the empty public key, and
  returns client data with the empty private key.
\<close>

theorem blank_keys_are_provisioned:
  "fst (generateWireGuardKeyPair blank_key_host (start 0)) =
     Some \<lparr>kp_privateKey = [], kp_publicKey = []\<rparr>
   \<and> fst (createClient blank_key_host [] (js ''A'') (js ''client'') (start 0)) =
     Some \<lparr>cd_payload = None, cd_privateKey = [], cd_presharedKey = js ''cHNr='',
           cd_printable = True\<rparr>
   \<and> last (trace (snd (createClient blank_key_host [] (js ''A'') (js ''client'') (start 0)))) =
     HttpPost (client_url (js ''A''))
       \<lparr>cr_name = js ''client'', cr_publicKey = [], cr_presharedKey = js ''cHNr=''\<rparr>"
  by (simp add: createClient_def generateWireGuardKeyPair_def generatePresharedKey_def
      blank_key_host_def blank_keys_def static_run exec_ok_def decimal.simps trim_def
      is_space_def js_def Let_def)

section \<open>Permission bits of the configuration file\<close>

text \<open>
  Claim C5 against the code. When the configuration file exists already with the bits
  0644 (420), \<^verbatim>\<open>createWireGuardConfig\<close> succeeds, the file holds the new
  configuration with the private key, and its bits are still 0644, not 0600 (384).
\<close>

theorem existing_file_keeps_mode:
  "fst (createWireGuardConfig posix_host example_client (start stale_fs)) =
     Some configPath_default
   \<and> files (world (snd (createWireGuardConfig posix_host example_client (start stale_fs))))
       configPath_default =
     Some \<lparr>f_content = example_config, f_mode = 420\<rparr>
   \<and> (420 :: mode) \<noteq> 384"
  by (simp add: createWireGuardConfig_def writeFile_def posix_host_def posix_writeFile_def
      stale_fs_def start_def example_client_def example_config_def interpolate_def
      first_address_def Let_def)

text \<open>
  A file that \<^verbatim>\<open>createWireGuardConfig\<close> creates gets the bits 0600 less those
  of the umask, so never a bit for the group or for others.
\<close>

lemma created_file_mode:
  assumes "files fs configPath_default = None"
    and "cd_payload c = Some p" "pp_client p = Some cl" "ci_Address cl = Some as"
  shows "map_option f_mode
           (files (world (snd (createWireGuardConfig posix_host c (start fs)))) configPath_default) =
         Some (384 AND NOT (umask fs))"
  using assms
  by (simp add: createWireGuardConfig_def writeFile_def posix_host_def posix_writeFile_def
      start_def Let_def)

end
